theory Spec2Isabelle
  imports Main "HOL-Library.AList" "HOL-Library.Multiset" "HOL-Library.Sublist"
begin

section \<open>Values, dictionaries and errors\<close>

text \<open>
  The embedding follows \<^verbatim>\<open>cloudify/workflows/local.py\<close>.  Runtime properties, workflow
  parameters and outputs hold the Python values that JSON represents (FileStorage writes
  every instance with \<^verbatim>\<open>json.dumps\<close> and reads it back with \<^verbatim>\<open>json.loads\<close>).
\<close>

datatype pyval =
    PNone
  | PBool bool
  | PInt int
  | PStr string
  | PList "pyval list"
  | PDict "(string \<times> pyval) list"

text \<open>
  A Python dict is an association list in the order in which the dict is enumerated
  (\<^verbatim>\<open>iteritems\<close>, \<^verbatim>\<open>values\<close>, \<^verbatim>\<open>keys\<close>).  Python does not specify that order, and no
  theorem below depends on it.  \<^verbatim>\<open>d[k] = v\<close> is \<open>AList.update k v d\<close>: the value of an
  existing key is replaced in place, a new key is added.
\<close>

type_synonym 'v dict = "(string \<times> 'v) list"

text \<open>\<^verbatim>\<open>dict((k, v) for ...)\<close>: the pairs are stored one after the other, a later pair
  replacing an earlier one with the same key.\<close>

definition dict_of :: "(string \<times> 'v) list \<Rightarrow> 'v dict" where
  "dict_of kvs = fold (\<lambda>(k, v). AList.update k v) kvs []"

text \<open>
  One constructor for each exception the source raises, named by its Python class and, where
  a class is raised at several places, by the place.  The arguments are the values that the
  source formats into the message, in the order of the format string:
  \<^item> \<open>KeyError i\<close>: \<^verbatim>\<open>self._locks[node_instance_id]\<close> in \<^verbatim>\<open>Storage._lock\<close>;
  \<^item> \<open>RuntimeError_instance i\<close>: \<^verbatim>\<open>RuntimeError('Instance {} does not exist')\<close>;
  \<^item> \<open>RuntimeError_node i\<close>: \<^verbatim>\<open>RuntimeError('Node {} does not exist')\<close>;
  \<^item> \<open>IOError p\<close>: \<^verbatim>\<open>open\<close> of an instance file that is not there;
  \<^item> \<open>StorageConflictError v i c\<close>: \<^verbatim>\<open>'version {} does not match current version of
    node instance {} which is {}'\<close>;
  \<^item> \<open>ValueError_workflow w ws\<close>: \<^verbatim>\<open>"'{}' workflow does not exist. existing workflows
    are: {}"\<close>;
  \<^item> \<open>ValueError_missing w ns\<close>: \<^verbatim>\<open>'Workflow "{0}" must be provided with the following
    parameters to execute: {1}'\<close>, \<open>ns\<close> being the names joined by commas;
  \<^item> \<open>ValueError_custom w ns\<close>: \<^verbatim>\<open>'Workflow "{0}" does not have the following parameters
    declared: {1}. Remove these parameters or use the flag for allowing custom
    parameters'\<close>;
  \<^item> \<open>ValueError_storage_cls c\<close>: \<^verbatim>\<open>'class {} must strictly derive from Storage. ...'\<close>;
  \<^item> \<open>ImportError m n t\<close>: \<^verbatim>\<open>'mapping error: No module named {} [node={}, type={}]'\<close>;
  \<^item> \<open>AttributeError m a n t\<close>: \<^verbatim>\<open>"mapping error: {} has no attribute '{}' [node={},
    type={}]"\<close>.

  Five more are raised by Python itself, inside a call that the source makes:
  \<^item> \<open>ImportError_import m\<close>: the \<^verbatim>\<open>ImportError\<close> of \<^verbatim>\<open>importlib.import_module\<close> for a
    module \<open>m\<close> that is not found;
  \<^item> \<open>ValueError_empty_module_name\<close>: \<^verbatim>\<open>importlib.import_module('')\<close>;
  \<^item> \<open>TypeError_relative_import m\<close>: \<^verbatim>\<open>importlib.import_module\<close> of a name that starts with
    a dot, with no package given;
  \<^item> \<open>TypeError_keyword k\<close>: a call that gets the keyword argument \<open>k\<close> twice
    (\<^verbatim>\<open>got multiple values for keyword argument\<close>);
  \<^item> \<open>TypeError_json\<close>: \<^verbatim>\<open>json.dumps\<close> of a value that JSON cannot represent, or of a dict
    with a key that is not a string, a number, a boolean or \<^verbatim>\<open>None\<close>.
\<close>

datatype error =
    KeyError string
  | RuntimeError_instance string
  | RuntimeError_node string
  | IOError string
  | StorageConflictError int string int
  | ValueError_workflow string "string list"
  | ValueError_missing string "string list"
  | ValueError_custom string "string list"
  | ValueError_storage_cls string
  | ImportError string string string
  | AttributeError string string string string
  | ImportError_import string
  | ValueError_empty_module_name
  | TypeError_relative_import string
  | TypeError_keyword string
  | TypeError_json

section \<open>The plan model\<close>

text \<open>An operation descriptor; \<open>operation\<close> is its \<^verbatim>\<open>'operation'\<close> key, the dotted path
  \<^verbatim>\<open><module>.<attribute>\<close> of the implementation.\<close>

record operation_descriptor =
  operation :: string

record relationship =
  source_operations :: "operation_descriptor dict option"
  target_operations :: "operation_descriptor dict option"

text \<open>A node.  A key that the plan may leave out (\<^verbatim>\<open>'operations'\<close>,
  \<^verbatim>\<open>'relationships'\<close>) is an option.\<close>

record node =
  node_ident :: string
  operations :: "operation_descriptor dict option"
  node_relationships :: "relationship list option"

text \<open>
  A node instance (\<^verbatim>\<open>NodeInstance\<close>, a dict): \<open>instance_id\<close> is \<^verbatim>\<open>instance.id\<close>,
  \<open>name\<close> the plan's \<^verbatim>\<open>'name'\<close> key, from which \<^verbatim>\<open>_prepare_nodes_and_instances\<close> sets
  \<^verbatim>\<open>'node_id'\<close>.  \<open>state\<close> and \<open>runtime_properties\<close> are \<open>None\<close> where Python has
  \<^verbatim>\<open>None\<close> or no key.
\<close>

record node_instance =
  instance_id :: string
  name :: string
  node_id :: "string option"
  relationships :: "pyval list option"
  state :: "string option"
  runtime_properties :: "pyval dict option"
  version :: int

section \<open>Storage\<close>

subsection \<open>The base class\<close>

text \<open>\<^verbatim>\<open>Storage._lock\<close>: the lock of an instance is looked up in the table \<^verbatim>\<open>self._locks\<close>,
  here the list of its keys; an id with no lock raises \<^verbatim>\<open>KeyError\<close>.  The locks are
  reentrant and the model is sequential, so acquiring a lock that exists succeeds.\<close>

definition lock :: "string list \<Rightarrow> string \<Rightarrow> error + unit" where
  "lock locks node_instance_id =
     (if node_instance_id \<in> set locks then Inr () else Inl (KeyError node_instance_id))"

text \<open>\<^verbatim>\<open>Storage._get_node_instance\<close>, applied to what \<^verbatim>\<open>self._load_instance\<close> returned or
  raised.\<close>

definition Storage_get_node_instance ::
  "string \<Rightarrow> error + node_instance option \<Rightarrow> error + node_instance" where
  "Storage_get_node_instance node_instance_id loaded =
     (case loaded of
        Inl e \<Rightarrow> Inl e
      | Inr None \<Rightarrow> Inl (RuntimeError_instance node_instance_id)
      | Inr (Some instance) \<Rightarrow> Inr instance)"

text \<open>The body of \<^verbatim>\<open>Storage.update_node_instance\<close> between loading the instance and
  storing it: the version check, the increment, and the two assignments.\<close>

definition apply_update ::
  "string \<Rightarrow> int \<Rightarrow> pyval dict option \<Rightarrow> string option \<Rightarrow> node_instance
     \<Rightarrow> error + node_instance" where
  "apply_update node_instance_id ver rp st instance =
     (if st = None \<and> ver \<noteq> version instance
      then Inl (StorageConflictError ver node_instance_id (version instance))
      else
        let i1 = instance\<lparr>version := version instance + 1\<rparr>;
            i2 = (case rp of None \<Rightarrow> i1 | Some r \<Rightarrow> i1\<lparr>runtime_properties := Some r\<rparr>);
            i3 = (case st of None \<Rightarrow> i2 | Some s \<Rightarrow> i2\<lparr>state := Some s\<rparr>)
        in Inr i3)"

text \<open>\<^verbatim>\<open>Storage.__init__\<close>: the dict of the instances by id, each with version 0, and the
  dict of the nodes by id.\<close>

definition Storage_init_instances :: "node_instance list \<Rightarrow> node_instance dict" where
  "Storage_init_instances node_instances =
     map (\<lambda>(k, instance). (k, instance\<lparr>version := 0\<rparr>))
       (dict_of (map (\<lambda>instance. (instance_id instance, instance)) node_instances))"

definition Storage_init_nodes :: "node list \<Rightarrow> node dict" where
  "Storage_init_nodes nodes = dict_of (map (\<lambda>n. (node_ident n, n)) nodes)"

subsection \<open>InMemoryStorage\<close>

record in_memory_storage =
  mem_name :: string
  mem_resources_root :: string
  mem_nodes :: "node dict"
  mem_node_instances :: "node_instance dict"
  mem_locks :: "string list"

definition InMemoryStorage_init ::
  "string \<Rightarrow> string \<Rightarrow> node list \<Rightarrow> node_instance list \<Rightarrow> in_memory_storage" where
  "InMemoryStorage_init nm root nodes node_instances =
     (let instances = Storage_init_instances node_instances
      in \<lparr>mem_name = nm, mem_resources_root = root,
          mem_nodes = Storage_init_nodes nodes,
          mem_node_instances = instances,
          mem_locks = map fst instances\<rparr>)"

definition InMemoryStorage_load_instance ::
  "in_memory_storage \<Rightarrow> string \<Rightarrow> error + node_instance option" where
  "InMemoryStorage_load_instance s node_instance_id =
     Inr (map_of (mem_node_instances s) node_instance_id)"

text \<open>\<^verbatim>\<open>copy.deepcopy\<close> of a value is the value.\<close>

definition InMemoryStorage_get_node_instance ::
  "in_memory_storage \<Rightarrow> string \<Rightarrow> error + node_instance" where
  "InMemoryStorage_get_node_instance s node_instance_id =
     Storage_get_node_instance node_instance_id
       (InMemoryStorage_load_instance s node_instance_id)"

definition InMemoryStorage_get_node_instances ::
  "in_memory_storage \<Rightarrow> error + node_instance list" where
  "InMemoryStorage_get_node_instances s = Inr (map snd (mem_node_instances s))"

text \<open>
  \<^verbatim>\<open>update_node_instance\<close> on the memory backend.  The loaded instance is the stored object
  itself, so the assignments change the entry of \<^verbatim>\<open>self._node_instances\<close> under
  \<^verbatim>\<open>node_instance_id\<close>, and \<^verbatim>\<open>_store_instance\<close> does nothing.  The result is paired with
  the store after the call; an exception leaves the store as it was when it was raised.
  The runtime properties are stored as the value given.  (The source stores the dict
  itself, so that a caller who changes the dict afterwards changes the stored instance;
  no store operation does that, and the sequences of operations below are of values.)
\<close>

definition InMemoryStorage_update_node_instance ::
  "in_memory_storage \<Rightarrow> string \<Rightarrow> int \<Rightarrow> pyval dict option \<Rightarrow> string option
     \<Rightarrow> (error + unit) \<times> in_memory_storage" where
  "InMemoryStorage_update_node_instance s node_instance_id ver rp st =
     (case lock (mem_locks s) node_instance_id of
        Inl e \<Rightarrow> (Inl e, s)
      | Inr _ \<Rightarrow>
          (case Storage_get_node_instance node_instance_id
                  (InMemoryStorage_load_instance s node_instance_id) of
             Inl e \<Rightarrow> (Inl e, s)
           | Inr instance \<Rightarrow>
               (case apply_update node_instance_id ver rp st instance of
                  Inl e \<Rightarrow> (Inl e, s)
                | Inr instance' \<Rightarrow>
                    (Inr (),
                     s\<lparr>mem_node_instances :=
                         AList.update node_instance_id instance' (mem_node_instances s)\<rparr>))))"

subsection \<open>FileStorage\<close>

text \<open>
  The directory \<^verbatim>\<open><storage_dir>/<name>/node-instances\<close> is a dict from file names to file
  contents, in the order of \<^verbatim>\<open>os.listdir\<close>; the content of a file is the JSON document of
  an instance.  For the values of \<open>pyval\<close>, \<^verbatim>\<open>json.loads\<close> of the document that \<^verbatim>\<open>json.dumps\<close>
  writes is the value written (\<open>json_loads_dumps\<close> below, and its property \<open>json_exact\<close>),
  so that the document of an instance is modelled by the instance.  \<^verbatim>\<open>self._node_instances\<close>
  is \<^verbatim>\<open>None\<close> once the constructor has returned and is not part of the state.
\<close>

record file_storage =
  file_name :: string
  file_resources_root :: string
  file_nodes :: "node dict"
  file_locks :: "string list"
  instances_dir :: "node_instance dict"

text \<open>What the constructor finds on disk: no directory of this deployment, or the
  directory with or without its \<^verbatim>\<open>node-instances\<close> directory.\<close>

datatype disk = NoStorageDir | StorageDir "node_instance dict option"

definition FileStorage_load_instance ::
  "file_storage \<Rightarrow> string \<Rightarrow> error + node_instance option" where
  "FileStorage_load_instance s node_instance_id =
     (case lock (file_locks s) node_instance_id of
        Inl e \<Rightarrow> Inl e
      | Inr _ \<Rightarrow>
          (case map_of (instances_dir s) node_instance_id of
             None \<Rightarrow> Inl (IOError node_instance_id)
           | Some instance \<Rightarrow> Inr (Some instance)))"

definition FileStorage_store_instance ::
  "file_storage \<Rightarrow> node_instance \<Rightarrow> bool \<Rightarrow> (error + unit) \<times> file_storage" where
  "FileStorage_store_instance s instance lck =
     (case (if lck then lock (file_locks s) (instance_id instance) else Inr ()) of
        Inl e \<Rightarrow> (Inl e, s)
      | Inr _ \<Rightarrow>
          (Inr (),
           s\<lparr>instances_dir :=
               AList.update (instance_id instance) instance (instances_dir s)\<rparr>))"

definition FileStorage_get_node_instance ::
  "file_storage \<Rightarrow> string \<Rightarrow> error + node_instance" where
  "FileStorage_get_node_instance s node_instance_id =
     Storage_get_node_instance node_instance_id
       (FileStorage_load_instance s node_instance_id)"

text \<open>A list comprehension whose element may raise: the first exception ends it.\<close>

fun collect :: "('a \<Rightarrow> error + 'b) \<Rightarrow> 'a list \<Rightarrow> error + 'b list" where
  "collect f [] = Inr []"
| "collect f (x # xs) =
     (case f x of
        Inl e \<Rightarrow> Inl e
      | Inr y \<Rightarrow> (case collect f xs of Inl e \<Rightarrow> Inl e | Inr ys \<Rightarrow> Inr (y # ys)))"

definition FileStorage_instance_ids :: "file_storage \<Rightarrow> string list" where
  "FileStorage_instance_ids s = map fst (instances_dir s)"

definition FileStorage_get_node_instances ::
  "file_storage \<Rightarrow> error + node_instance list" where
  "FileStorage_get_node_instances s =
     collect (FileStorage_get_node_instance s) (FileStorage_instance_ids s)"

definition FileStorage_update_node_instance ::
  "file_storage \<Rightarrow> string \<Rightarrow> int \<Rightarrow> pyval dict option \<Rightarrow> string option
     \<Rightarrow> (error + unit) \<times> file_storage" where
  "FileStorage_update_node_instance s node_instance_id ver rp st =
     (case lock (file_locks s) node_instance_id of
        Inl e \<Rightarrow> (Inl e, s)
      | Inr _ \<Rightarrow>
          (case Storage_get_node_instance node_instance_id
                  (FileStorage_load_instance s node_instance_id) of
             Inl e \<Rightarrow> (Inl e, s)
           | Inr instance \<Rightarrow>
               (case apply_update node_instance_id ver rp st instance of
                  Inl e \<Rightarrow> (Inl e, s)
                | Inr instance' \<Rightarrow> FileStorage_store_instance s instance' True)))"

text \<open>
  \<^verbatim>\<open>FileStorage.__init__\<close>.  With \<open>clear\<close>, an existing directory of the deployment is
  removed first.  The locks are made for \<^verbatim>\<open>self._instance_ids()\<close>: the files of the
  instances directory when it exists, else the ids of the instances given.  When the
  instances directory does not exist it is made and every instance given is written to it,
  without locking; when it exists its files are kept and the instances given are ignored.
\<close>

definition FileStorage_init ::
  "string \<Rightarrow> string \<Rightarrow> node list \<Rightarrow> node_instance list \<Rightarrow> disk \<Rightarrow> bool \<Rightarrow> file_storage" where
  "FileStorage_init nm root nodes node_instances dsk clear =
     (let dsk1 = (if dsk \<noteq> NoStorageDir \<and> clear then NoStorageDir else dsk);
          instances = Storage_init_instances node_instances;
          ids = (case dsk1 of
                   StorageDir (Some files) \<Rightarrow> map fst files
                 | _ \<Rightarrow> map fst instances);
          s0 = \<lparr>file_name = nm, file_resources_root = root,
                file_nodes = Storage_init_nodes nodes,
                file_locks = ids,
                instances_dir = (case dsk1 of StorageDir (Some files) \<Rightarrow> files | _ \<Rightarrow> [])\<rparr>
      in (case dsk1 of
            StorageDir (Some files) \<Rightarrow> s0
          | _ \<Rightarrow>
              fold (\<lambda>instance s. snd (FileStorage_store_instance s instance False))
                (map snd instances) s0))"

subsection \<open>What JSON keeps of a Python value\<close>









subsection \<open>Sequences of store operations\<close>

text \<open>The three operations of the claims, their results, and a backend run on a list of
  operations: the results in order and the store at the end.\<close>

datatype store_op =
    Get_node_instance string
  | Get_node_instances
  | Update_node_instance string int "pyval dict option" "string option"

datatype outcome =
    Instance node_instance
  | Instances "node_instance list"
  | Updated

fun InMemoryStorage_step ::
  "in_memory_storage \<Rightarrow> store_op \<Rightarrow> (error + outcome) \<times> in_memory_storage" where
  "InMemoryStorage_step s (Get_node_instance i) =
     (map_sum (\<lambda>e. e) Instance (InMemoryStorage_get_node_instance s i), s)"
| "InMemoryStorage_step s Get_node_instances =
     (map_sum (\<lambda>e. e) Instances (InMemoryStorage_get_node_instances s), s)"
| "InMemoryStorage_step s (Update_node_instance i ver rp st) =
     (case InMemoryStorage_update_node_instance s i ver rp st of
        (r, s') \<Rightarrow> (map_sum (\<lambda>e. e) (\<lambda>_. Updated) r, s'))"

fun FileStorage_step ::
  "file_storage \<Rightarrow> store_op \<Rightarrow> (error + outcome) \<times> file_storage" where
  "FileStorage_step s (Get_node_instance i) =
     (map_sum (\<lambda>e. e) Instance (FileStorage_get_node_instance s i), s)"
| "FileStorage_step s Get_node_instances =
     (map_sum (\<lambda>e. e) Instances (FileStorage_get_node_instances s), s)"
| "FileStorage_step s (Update_node_instance i ver rp st) =
     (case FileStorage_update_node_instance s i ver rp st of
        (r, s') \<Rightarrow> (map_sum (\<lambda>e. e) (\<lambda>_. Updated) r, s'))"

fun run :: "('s \<Rightarrow> store_op \<Rightarrow> (error + outcome) \<times> 's) \<Rightarrow> 's \<Rightarrow> store_op list
    \<Rightarrow> (error + outcome) list \<times> 's" where
  "run step s [] = ([], s)"
| "run step s (x # xs) =
     (case step s x of
        (r, s') \<Rightarrow> (case run step s' xs of (rs, s'') \<Rightarrow> (r # rs, s'')))"

text \<open>An operation together with its result is a successful update of instance \<open>i\<close>.\<close>

fun successful_update :: "string \<Rightarrow> store_op \<times> (error + outcome) \<Rightarrow> bool" where
  "successful_update i (Update_node_instance j ver rp st, Inr r) = (j = i)"
| "successful_update i (x, r) = False"

text \<open>How many of the operations \<open>ops\<close>, with the results \<open>rs\<close>, are successful updates of
  instance \<open>i\<close>.\<close>

definition successes :: "string \<Rightarrow> store_op list \<Rightarrow> (error + outcome) list \<Rightarrow> nat" where
  "successes i ops rs = length (filter (successful_update i) (zip ops rs))"

subsection \<open>Well-formed stores\<close>

text \<open>
  What the constructors establish and every operation keeps: the ids are distinct, every
  stored instance has its lock and every lock its instance, and an instance is stored under
  its own id (as the key of the dict, or as the name of the file).
\<close>

definition InMemoryStorage_inv :: "in_memory_storage \<Rightarrow> bool" where
  "InMemoryStorage_inv s \<longleftrightarrow>
     distinct (map fst (mem_node_instances s)) \<and>
     set (mem_locks s) = fst ` set (mem_node_instances s) \<and>
     (\<forall>(k, instance) \<in> set (mem_node_instances s). instance_id instance = k)"

definition FileStorage_inv :: "file_storage \<Rightarrow> bool" where
  "FileStorage_inv s \<longleftrightarrow>
     distinct (map fst (instances_dir s)) \<and>
     set (file_locks s) = fst ` set (instances_dir s) \<and>
     (\<forall>(k, instance) \<in> set (instances_dir s). instance_id instance = k)"

text \<open>The constructor of FileStorage starts from the instances given, and not from the
  files of an earlier run, when the deployment has no instances directory or \<open>clear\<close> is
  set.\<close>

fun fresh :: "disk \<Rightarrow> bool \<Rightarrow> bool" where
  "fresh (StorageDir (Some files)) clear = clear"
| "fresh dsk clear = True"

subsection \<open>Comparing the two backends\<close>

text \<open>
  The error taxonomy of the specification (its section 7) names kinds of failure, not
  Python classes: the source has no class of the name NotFound.  An exception of the source
  is a NotFound failure when it is raised because what was looked up does not exist: the
  lock of an unknown instance id, an unknown instance or node, an instance file that is
  not there, an unknown workflow name.
\<close>

fun NotFound :: "error \<Rightarrow> bool" where
  "NotFound (KeyError i) = True"
| "NotFound (RuntimeError_instance i) = True"
| "NotFound (RuntimeError_node i) = True"
| "NotFound (IOError p) = True"
| "NotFound (ValueError_workflow w ws) = True"
| "NotFound e = False"




section \<open>The environment\<close>

subsection \<open>Resolving an implementation\<close>

text \<open>\<^verbatim>\<open>str.split\<close> on one character and \<^verbatim>\<open>str.join\<close>.\<close>

fun split :: "char \<Rightarrow> string \<Rightarrow> string list" where
  "split c [] = [[]]"
| "split c (x # xs) =
     (if x = c then [] # split c xs
      else (case split c xs of [] \<Rightarrow> [[x]] | w # ws \<Rightarrow> (x # w) # ws))"

fun join :: "string \<Rightarrow> string list \<Rightarrow> string" where
  "join sep [] = []"
| "join sep [w] = w"
| "join sep (w # v # ws) = w @ sep @ join sep (v # ws)"

text \<open>
  A module, as far as the source looks at it: its \<^verbatim>\<open>__name__\<close> and the names of its
  attributes.  What \<^verbatim>\<open>importlib.import_module\<close> does is given by the host: for a module
  name, the module that it returns or the exception that it raises.  A resolved
  implementation is the pair of the module name and the attribute name of its path.
\<close>

record py_module =
  py_name :: string
  py_attributes :: "string list"

type_synonym modules = "string \<Rightarrow> error + py_module"

text \<open>
  The host in which the modules of a table, and no others, can be imported, each under
  its own name.  Before it looks for a module, \<^verbatim>\<open>importlib.import_module\<close> raises
  \<^verbatim>\<open>ValueError\<close> for the empty name and \<^verbatim>\<open>TypeError\<close> for a name that starts with a dot
  (a relative import with no package); a module that is not found is an \<^verbatim>\<open>ImportError\<close>.
\<close>

definition import_module :: "string list dict \<Rightarrow> modules" where
  "import_module table module_name =
     (if module_name = [] then Inl ValueError_empty_module_name
      else if hd module_name = CHR ''.'' then Inl (TypeError_relative_import module_name)
      else case map_of table module_name of
             None \<Rightarrow> Inl (ImportError_import module_name)
           | Some attrs \<Rightarrow> Inr \<lparr>py_name = module_name, py_attributes = attrs\<rparr>)"

text \<open>The exceptions that \<^verbatim>\<open>except ImportError\<close> catches.\<close>

fun import_error :: "error \<Rightarrow> bool" where
  "import_error (ImportError_import m) = True"
| "import_error (ImportError m n t) = True"
| "import_error e = False"

text \<open>\<^verbatim>\<open>'.'.join(split[:-1])\<close> and \<^verbatim>\<open>split[-1]\<close> of a dotted path.\<close>

definition module_name_of :: "string \<Rightarrow> string" where
  "module_name_of module_method_path = join ''.'' (butlast (split CHR ''.'' module_method_path))"

definition method_name_of :: "string \<Rightarrow> string" where
  "method_name_of module_method_path = last (split CHR ''.'' module_method_path)"

text \<open>\<^verbatim>\<open>Environment._get_module_method\<close>.  Only an \<^verbatim>\<open>ImportError\<close> of the import is caught
  and raised again as the mapping error; any other exception of the import leaves the
  function as it is.  The \<^verbatim>\<open>AttributeError\<close> has the \<^verbatim>\<open>__name__\<close> of the module, which is
  not always the name under which it was imported.\<close>

definition get_module_method ::
  "modules \<Rightarrow> string \<Rightarrow> string \<Rightarrow> string \<Rightarrow> error + string \<times> string" where
  "get_module_method mods module_method_path tpe node_name =
     (let module_name = module_name_of module_method_path;
          method_name = method_name_of module_method_path
      in case mods module_name of
           Inl e \<Rightarrow>
             if import_error e then Inl (ImportError module_name node_name tpe) else Inl e
         | Inr md \<Rightarrow>
             if method_name \<in> set (py_attributes md) then Inr (module_name, method_name)
             else Inl (AttributeError (py_name md) method_name node_name tpe))"


subsection \<open>Validation at construction\<close>

text \<open>A \<^verbatim>\<open>for\<close> loop whose body may raise: the first exception ends it.\<close>

fun for_each :: "('a \<Rightarrow> error + 'b) \<Rightarrow> 'a list \<Rightarrow> error + unit" where
  "for_each f [] = Inr ()"
| "for_each f (x # xs) = (case f x of Inl e \<Rightarrow> Inl e | Inr y \<Rightarrow> for_each f xs)"

text \<open>\<^verbatim>\<open>scan(parent, name, node)\<close>, with \<open>ops\<close> for \<^verbatim>\<open>parent.get(name)\<close>.\<close>

definition scan ::
  "modules \<Rightarrow> operation_descriptor dict option \<Rightarrow> string \<Rightarrow> node \<Rightarrow> error + unit" where
  "scan mods ops nm nd =
     for_each (\<lambda>descriptor. get_module_method mods (operation descriptor) nm (node_ident nd))
       (map snd (case ops of None \<Rightarrow> [] | Some d \<Rightarrow> d))"

definition prepare_node :: "modules \<Rightarrow> node \<Rightarrow> error + node" where
  "prepare_node mods nd =
     (let rels = (case node_relationships nd of None \<Rightarrow> [] | Some rs \<Rightarrow> rs);
          nd1 = nd\<lparr>node_relationships := Some rels\<rparr>
      in case scan mods (operations nd1) ''operations'' nd1 of
           Inl e \<Rightarrow> Inl e
         | Inr _ \<Rightarrow>
             (case for_each
                     (\<lambda>r. case scan mods (source_operations r) ''source_operations'' nd1 of
                             Inl e \<Rightarrow> Inl e
                           | Inr _ \<Rightarrow> scan mods (target_operations r) ''target_operations'' nd1)
                     rels of
                Inl e \<Rightarrow> Inl e
              | Inr _ \<Rightarrow> Inr nd1))"

definition prepare_instance :: "node_instance \<Rightarrow> node_instance" where
  "prepare_instance instance =
     instance\<lparr>node_id := Some (name instance),
              relationships :=
                (case relationships instance of None \<Rightarrow> Some [] | Some rs \<Rightarrow> Some rs)\<rparr>"

definition prepare_nodes_and_instances ::
  "modules \<Rightarrow> node list \<Rightarrow> node_instance list \<Rightarrow> error + node list \<times> node_instance list" where
  "prepare_nodes_and_instances mods nodes node_instances =
     (case collect (prepare_node mods) nodes of
        Inl e \<Rightarrow> Inl e
      | Inr nodes' \<Rightarrow> Inr (nodes', map prepare_instance node_instances))"




subsection \<open>Workflows and their parameters\<close>

text \<open>A declared parameter; \<open>default_value\<close> is \<open>None\<close> when the declaration has no
  \<^verbatim>\<open>'default'\<close> key.  A workflow; \<open>parameters\<close> is \<open>None\<close> when it has no \<^verbatim>\<open>'parameters'\<close>
  key.\<close>

record parameter =
  default_value :: "pyval option"

record workflow =
  workflow_operation :: string
  parameters :: "parameter dict option"

text \<open>
  The loop over the declared parameters of \<^verbatim>\<open>_merge_and_validate_execution_parameters\<close>,
  on the pair of \<^verbatim>\<open>merged_parameters\<close> and \<^verbatim>\<open>missing_mandatory_parameters\<close>.  The set of
  the missing names is the list of its elements, without repetition.
\<close>

fun merge_declared ::
  "pyval dict \<Rightarrow> parameter dict \<Rightarrow> pyval dict \<times> string list \<Rightarrow> pyval dict \<times> string list" where
  "merge_declared execution_parameters [] acc = acc"
| "merge_declared execution_parameters ((nm, param) # rest) (merged, missing) =
     merge_declared execution_parameters rest
       (case default_value param of
          None \<Rightarrow>
            (case map_of execution_parameters nm of
               None \<Rightarrow> (merged, List.insert nm missing)
             | Some v \<Rightarrow> (AList.update nm v merged, missing))
        | Some d \<Rightarrow>
            (AList.update nm
               (case map_of execution_parameters nm of Some v \<Rightarrow> v | None \<Rightarrow> d) merged,
             missing))"

text \<open>\<^verbatim>\<open>workflow.get('parameters', {})\<close> and \<^verbatim>\<open>execution_parameters or {}\<close>.\<close>

definition declared_parameters :: "workflow \<Rightarrow> parameter dict" where
  "declared_parameters wfl = (case parameters wfl of None \<Rightarrow> [] | Some ps \<Rightarrow> ps)"

definition supplied_parameters :: "pyval dict option \<Rightarrow> pyval dict" where
  "supplied_parameters execution_parameters =
     (case execution_parameters of None \<Rightarrow> [] | Some ps \<Rightarrow> ps)"

definition merge_and_validate_execution_parameters ::
  "workflow \<Rightarrow> string \<Rightarrow> pyval dict option \<Rightarrow> bool \<Rightarrow> error + pyval dict" where
  "merge_and_validate_execution_parameters wfl workflow_name execution_parameters
       allow_custom_parameters =
     (let workflow_parameters = declared_parameters wfl;
          eps = supplied_parameters execution_parameters;
          acc = merge_declared eps workflow_parameters ([], [])
      in if snd acc \<noteq> [] then Inl (ValueError_missing workflow_name (snd acc))
         else
           let custom_parameters =
                 filter (\<lambda>(k, v). k \<notin> set (map fst workflow_parameters)) eps
           in if \<not> allow_custom_parameters \<and> custom_parameters \<noteq> []
              then Inl (ValueError_custom workflow_name (map fst custom_parameters))
              else Inr (fold (\<lambda>(k, v). AList.update k v) custom_parameters (fst acc)))"

text \<open>
  In the words of the claims: the declared parameters without a default that the caller
  does not supply, the parameters that the caller supplies and the workflow does not
  declare, and the value that a name has after merging: the caller's value when supplied,
  else the declared default.
\<close>

definition missing_mandatory :: "pyval dict \<Rightarrow> parameter dict \<Rightarrow> string list" where
  "missing_mandatory eps workflow_parameters =
     map fst
       (filter (\<lambda>(nm, param). default_value param = None \<and> nm \<notin> fst ` set eps)
          workflow_parameters)"

definition undeclared :: "pyval dict \<Rightarrow> parameter dict \<Rightarrow> string list" where
  "undeclared eps workflow_parameters =
     filter (\<lambda>nm. nm \<notin> fst ` set workflow_parameters) (map fst eps)"

definition merged_value :: "pyval dict \<Rightarrow> parameter dict \<Rightarrow> string \<Rightarrow> pyval option" where
  "merged_value eps workflow_parameters nm =
     (case map_of workflow_parameters nm of
        None \<Rightarrow> map_of eps nm
      | Some param \<Rightarrow>
          (case map_of eps nm of Some v \<Rightarrow> Some v | None \<Rightarrow> default_value param))"

subsection \<open>The environment and \<^verbatim>\<open>execute\<close>\<close>

record plan =
  plan_nodes :: "node list"
  plan_node_instances :: "node_instance list"
  workflows :: "workflow dict"
  outputs :: "pyval dict"

datatype storage = InMemoryStorage in_memory_storage | FileStorage file_storage

text \<open>The value of \<^verbatim>\<open>storage_cls\<close>: the base class, one of the two backends (FileStorage
  with what its constructor finds on disk and its \<open>clear\<close> flag), or a class of the given
  name that does not derive from Storage.\<close>

datatype storage_cls =
    Storage_cls
  | InMemoryStorage_cls
  | FileStorage_cls disk bool
  | Other_cls string

record environment =
  env_name :: string
  env_plan :: plan
  env_storage :: storage

text \<open>\<^verbatim>\<open>Environment.__init__\<close>, from the plan that the blueprint parser returned.\<close>

definition Environment_init ::
  "modules \<Rightarrow> plan \<Rightarrow> string \<Rightarrow> string \<Rightarrow> storage_cls option \<Rightarrow> error + environment" where
  "Environment_init mods pl nm root cls =
     (case prepare_nodes_and_instances mods (plan_nodes pl) (plan_node_instances pl) of
        Inl e \<Rightarrow> Inl e
      | Inr (nodes, node_instances) \<Rightarrow>
          (case (case cls of None \<Rightarrow> InMemoryStorage_cls | Some c \<Rightarrow> c) of
             Storage_cls \<Rightarrow> Inl (ValueError_storage_cls ''Storage'')
           | Other_cls c \<Rightarrow> Inl (ValueError_storage_cls c)
           | InMemoryStorage_cls \<Rightarrow>
               Inr \<lparr>env_name = nm, env_plan = pl,
                    env_storage =
                      InMemoryStorage (InMemoryStorage_init nm root nodes node_instances)\<rparr>
           | FileStorage_cls dsk clear \<Rightarrow>
               Inr \<lparr>env_name = nm, env_plan = pl,
                    env_storage =
                      FileStorage (FileStorage_init nm root nodes node_instances dsk clear)\<rparr>))"

text \<open>The context handed to the workflow, and the call
  \<^verbatim>\<open>workflow_method(__cloudify_context=ctx, **merged_parameters)\<close>: the implementation called
  and its arguments.  What the implementation does is outside the model.\<close>

record cloudify_context =
  ctx_local :: bool
  ctx_deployment_id :: string
  ctx_blueprint_id :: string
  ctx_execution_id :: string
  ctx_workflow_id :: string
  ctx_storage :: storage
  ctx_task_retries :: int
  ctx_task_retry_interval :: int
  ctx_local_task_thread_pool_size :: int

record invocation =
  workflow_method :: "string \<times> string"
  cloudify_ctx :: cloudify_context
  kwargs :: "pyval dict"

text \<open>
  \<^verbatim>\<open>Environment.execute\<close>; \<open>execution_id\<close> is the fresh \<^verbatim>\<open>uuid4\<close>.  The call on its last
  line gives the context under the keyword \<^verbatim>\<open>__cloudify_context\<close> and the merged parameters
  as further keywords: when the merged parameters have that name too, Python raises
  \<^verbatim>\<open>TypeError\<close> at the call and the implementation is not entered.  Which keywords the
  implementation takes is its own matter, like all it does.
\<close>

definition execute ::
  "modules \<Rightarrow> environment \<Rightarrow> string \<Rightarrow> string \<Rightarrow> pyval dict option \<Rightarrow> bool
     \<Rightarrow> int \<Rightarrow> int \<Rightarrow> int \<Rightarrow> error + invocation" where
  "execute mods env execution_id workflow_name params allow_custom_parameters
       task_retries task_retry_interval task_thread_pool_size =
     (case map_of (workflows (env_plan env)) workflow_name of
        None \<Rightarrow> Inl (ValueError_workflow workflow_name (map fst (workflows (env_plan env))))
      | Some wfl \<Rightarrow>
          (case get_module_method mods (workflow_operation wfl) ''workflow'' '''' of
             Inl e \<Rightarrow> Inl e
           | Inr method \<Rightarrow>
               (let ctx = \<lparr>ctx_local = True,
                           ctx_deployment_id = env_name env,
                           ctx_blueprint_id = env_name env,
                           ctx_execution_id = execution_id,
                           ctx_workflow_id = workflow_name,
                           ctx_storage = env_storage env,
                           ctx_task_retries = task_retries,
                           ctx_task_retry_interval = task_retry_interval,
                           ctx_local_task_thread_pool_size = task_thread_pool_size\<rparr>
                in case merge_and_validate_execution_parameters wfl workflow_name params
                          allow_custom_parameters of
                     Inl e \<Rightarrow> Inl e
                   | Inr merged_parameters \<Rightarrow>
                       if ''__cloudify_context'' \<in> fst ` set merged_parameters
                       then Inl (TypeError_keyword ''__cloudify_context'')
                       else Inr \<lparr>workflow_method = method, cloudify_ctx = ctx,
                                 kwargs = merged_parameters\<rparr>)))"

text \<open>The first two steps of \<open>execute\<close> succeed: the plan has the workflow under the name
  given, and its implementation is found.\<close>

definition resolves ::
  "modules \<Rightarrow> environment \<Rightarrow> string \<Rightarrow> workflow \<Rightarrow> string \<times> string \<Rightarrow> bool" where
  "resolves mods env workflow_name wfl method \<longleftrightarrow>
     map_of (workflows (env_plan env)) workflow_name = Some wfl \<and>
     get_module_method mods (workflow_operation wfl) ''workflow'' [] = Inr method"

subsection \<open>Outputs\<close>

definition storage_get_node_instances :: "storage \<Rightarrow> error + node_instance list" where
  "storage_get_node_instances st =
     (case st of
        InMemoryStorage m \<Rightarrow> InMemoryStorage_get_node_instances m
      | FileStorage f \<Rightarrow> FileStorage_get_node_instances f)"

text \<open>
  In the words of the claims: the node instances of a store, which are the values of
  \<^verbatim>\<open>self._node_instances\<close> on the memory backend and the contents of the files of the
  instances directory on the file backend; and a store that is well-formed, which every
  memory store is.
\<close>

definition stored_instances :: "storage \<Rightarrow> node_instance list" where
  "stored_instances st =
     (case st of
        InMemoryStorage m \<Rightarrow> map snd (mem_node_instances m)
      | FileStorage f \<Rightarrow> map snd (instances_dir f))"

definition well_formed :: "storage \<Rightarrow> bool" where
  "well_formed st =
     (case st of
        InMemoryStorage m \<Rightarrow> True
      | FileStorage f \<Rightarrow> FileStorage_inv f)"

text \<open>
  The handler of \<^verbatim>\<open>Environment.outputs\<close>, on the pair of \<^verbatim>\<open>context\<close> (the instances once
  they have been fetched) and the dict it assigns to.  \<^verbatim>\<open>dsl_functions.parse\<close> belongs to
  the blueprint parser, a package of its own; \<open>parse v\<close> is \<open>Some (node_name,
  attribute_name)\<close> when it returns a \<^verbatim>\<open>GetAttribute\<close> for \<open>v\<close>, else \<open>None\<close>.
\<close>

definition attribute_of :: "string \<Rightarrow> node_instance \<Rightarrow> pyval" where
  "attribute_of attribute_name instance =
     (case map_of (case runtime_properties instance of None \<Rightarrow> [] | Some rp \<Rightarrow> rp)
             attribute_name of
        None \<Rightarrow> PNone
      | Some v \<Rightarrow> v)"

definition handler ::
  "(pyval \<Rightarrow> (string \<times> string) option) \<Rightarrow> storage
     \<Rightarrow> node_instance list option \<times> pyval dict \<Rightarrow> string \<Rightarrow> pyval
     \<Rightarrow> error + node_instance list option \<times> pyval dict" where
  "handler parse st acc k v =
     (case parse v of
        None \<Rightarrow> Inr acc
      | Some (node_name, attribute_name) \<Rightarrow>
          (case (case fst acc of
                   None \<Rightarrow> storage_get_node_instances st
                 | Some instances \<Rightarrow> Inr instances) of
             Inl e \<Rightarrow> Inl e
           | Inr instances \<Rightarrow>
               Inr (Some instances,
                    AList.update k
                      (PList (map (attribute_of attribute_name)
                                (filter (\<lambda>instance. node_id instance = Some node_name)
                                   instances)))
                      (snd acc))))"

text \<open>
  Modelled from the spec: \<^verbatim>\<open>dsl_utils.scan_properties\<close> belongs to the blueprint parser and
  is not in this repository.  By section 4.4 of the specification it scans every value of
  the outputs mapping (a mapping from an output name to a literal value or a function
  expression), calling the handler with the mapping, the name and the value.
\<close>

fun scan_properties ::
  "('s \<Rightarrow> string \<Rightarrow> pyval \<Rightarrow> error + 's) \<Rightarrow> (string \<times> pyval) list \<Rightarrow> 's \<Rightarrow> error + 's" where
  "scan_properties h [] acc = Inr acc"
| "scan_properties h ((k, v) # kvs) acc =
     (case h acc k v of Inl e \<Rightarrow> Inl e | Inr acc' \<Rightarrow> scan_properties h kvs acc')"

definition Environment_outputs ::
  "(pyval \<Rightarrow> (string \<times> string) option) \<Rightarrow> environment \<Rightarrow> error + pyval dict" where
  "Environment_outputs parse env =
     (let outs = outputs (env_plan env)
      in case scan_properties (handler parse (env_storage env)) outs (None, outs) of
           Inl e \<Rightarrow> Inl e
         | Inr acc \<Rightarrow> Inr (snd acc))"

section \<open>Example data\<close>

text \<open>One instance as a plan holds it, and the two stores constructed from it, the file
  store on a disk with no directory of the deployment.\<close>

definition example_instance :: node_instance where
  "example_instance =
     \<lparr>instance_id = ''web_1'', name = ''web'', node_id = None, relationships = None,
      state = None, runtime_properties = None, version = 7\<rparr>"

definition example_memory :: in_memory_storage where
  "example_memory = InMemoryStorage_init ''local'' ''/bp'' [] [example_instance]"

definition example_files :: file_storage where
  "example_files = FileStorage_init ''local'' ''/bp'' [] [example_instance] NoStorageDir False"

definition example_ops :: "store_op list" where
  "example_ops =
     [Update_node_instance ''web_1'' 0 (Some [(''ip'', PStr ''10.0.0.1'')]) None,
      Update_node_instance ''web_1'' 0 (Some [(''ip'', PStr ''10.0.0.2'')]) None,
      Update_node_instance ''web_1'' 0 None (Some ''started''),
      Get_node_instance ''web_1'',
      Get_node_instance ''db_1'',
      Update_node_instance ''db_1'' 0 None (Some ''started''),
      Get_node_instances]"

text \<open>A workflow with two mandatory parameters and one with a default, the modules of
  the host, and an environment whose plan has the workflow.\<close>

definition example_workflow :: workflow where
  "example_workflow =
     \<lparr>workflow_operation = ''flows.deploy'',
      parameters = Some [(''x'', \<lparr>default_value = None\<rparr>),
                         (''y'', \<lparr>default_value = None\<rparr>),
                         (''retries'', \<lparr>default_value = Some (PInt 3)\<rparr>)]\<rparr>"

definition example_modules :: modules where
  "example_modules =
     import_module [(''flows'', [''deploy'']), (''plugin.tasks'', [''create'', ''start''])]"

definition example_plan :: plan where
  "example_plan =
     \<lparr>plan_nodes = [], plan_node_instances = [example_instance],
      workflows = [(''deploy'', example_workflow)],
      outputs = []\<rparr>"

definition example_environment :: environment where
  "example_environment =
     \<lparr>env_name = ''local'', env_plan = example_plan,
      env_storage = InMemoryStorage example_memory\<rparr>"

text \<open>
  A plan of two nodes.  The first node has an operation that resolves and a relationship
  whose source operation names a module that is not there; the second has an operation
  that names an attribute its module does not have.  A third node, whose operation has a
  path with no dot.  A plan with the instances and the
  outputs of the first node alone, whose operations are left out; the environments
  constructed from it, one with each backend; and a \<open>parse\<close> that knows \<^verbatim>\<open>{'get_attribute': [node, attribute]}\<close>.
\<close>

definition example_node :: node where
  "example_node =
     \<lparr>node_ident = ''web'',
      operations = Some [(''create'', \<lparr>operation = ''plugin.tasks.create''\<rparr>)],
      node_relationships =
        Some [\<lparr>source_operations =
                  Some [(''preconfigure'', \<lparr>operation = ''missing_plugin.tasks.link''\<rparr>)],
                target_operations = None\<rparr>]\<rparr>"




definition example_instances :: "node_instance list" where
  "example_instances =
     [example_instance\<lparr>runtime_properties := Some [(''ip'', PStr ''10.0.0.1'')]\<rparr>,
      example_instance\<lparr>instance_id := ''web_2''\<rparr>,
      example_instance\<lparr>instance_id := ''db_1'', name := ''db'',
        runtime_properties := Some [(''ip'', PStr ''10.0.0.9'')]\<rparr>,
      example_instance\<lparr>instance_id := ''web_3'', runtime_properties := Some [(''port'', PInt 80)]\<rparr>]"

definition example_outputs_plan :: plan where
  "example_outputs_plan =
     \<lparr>plan_nodes = [example_node\<lparr>node_relationships := None\<rparr>],
      plan_node_instances = example_instances,
      workflows = [(''deploy'', example_workflow)],
      outputs = [(''endpoint'', PDict [(''get_attribute'', PList [PStr ''web'', PStr ''ip''])]),
                 (''port'', PInt 80)]\<rparr>"

definition example_outputs_environment :: environment where
  "example_outputs_environment =
     \<lparr>env_name = ''local'', env_plan = example_outputs_plan,
      env_storage =
        InMemoryStorage
          (InMemoryStorage_init ''local'' ''/bp''
             [example_node\<lparr>node_relationships := Some []\<rparr>]
             (map prepare_instance example_instances))\<rparr>"

definition example_outputs_file_environment :: environment where
  "example_outputs_file_environment =
     \<lparr>env_name = ''local'', env_plan = example_outputs_plan,
      env_storage =
        FileStorage
          (FileStorage_init ''local'' ''/bp''
             [example_node\<lparr>node_relationships := Some []\<rparr>]
             (map prepare_instance example_instances) NoStorageDir False)\<rparr>"

fun example_parse :: "pyval \<Rightarrow> (string \<times> string) option" where
  "example_parse (PDict [(k, PList [PStr n, PStr a])]) =
     (if k = ''get_attribute'' then Some (n, a) else None)"
| "example_parse v = None"

section \<open>Properties of the storage\<close>

subsection \<open>Dictionaries\<close>

lemma update_set_subset: "set (AList.update k v al) \<subseteq> insert (k, v) (set al)"
  by (induction al) auto

lemma fold_update_keys:
  "fst ` set (fold (\<lambda>(k, v). AList.update k v) kvs d) = fst ` set kvs \<union> fst ` set d"
proof (induction kvs arbitrary: d)
  case Nil
  show ?case by simp
next
  case (Cons p kvs)
  obtain k v where p: "p = (k, v)" by (cases p)
  have "fst ` set (fold (\<lambda>(k, v). AList.update k v) kvs (AList.update k v d))
          = fst ` set kvs \<union> fst ` set (AList.update k v d)"
    by (rule Cons.IH)
  also have "\<dots> = fst ` set kvs \<union> ({k} \<union> fst ` set d)"
    by (simp only: AList.dom_update)
  finally show ?case by (simp add: p)
qed

lemma fold_update_distinct:
  "distinct (map fst d) \<Longrightarrow> distinct (map fst (fold (\<lambda>(k, v). AList.update k v) kvs d))"
  by (induction kvs arbitrary: d) (auto simp: AList.distinct_update)

lemma fold_update_entries:
  "set (fold (\<lambda>(k, v). AList.update k v) kvs d) \<subseteq> set kvs \<union> set d"
proof (induction kvs arbitrary: d)
  case Nil
  show ?case by simp
next
  case (Cons p kvs)
  obtain k v where p: "p = (k, v)" by (cases p)
  have "set (fold (\<lambda>(k, v). AList.update k v) kvs (AList.update k v d))
          \<subseteq> set kvs \<union> set (AList.update k v d)"
    by (rule Cons.IH)
  also have "\<dots> \<subseteq> set kvs \<union> insert (k, v) (set d)"
    using update_set_subset [of k v d] by auto
  finally show ?case by (auto simp: p)
qed

lemma dict_of_keys: "fst ` set (dict_of kvs) = fst ` set kvs"
  by (simp add: dict_of_def fold_update_keys)

lemma dict_of_distinct: "distinct (map fst (dict_of kvs))"
  by (simp add: dict_of_def fold_update_distinct)

lemma dict_of_entries: "set (dict_of kvs) \<subseteq> set kvs"
  using fold_update_entries [of kvs "[]"] by (simp add: dict_of_def)

lemma Storage_init_instances_keys:
  "map fst (Storage_init_instances xs) = map fst (dict_of (map (\<lambda>x. (instance_id x, x)) xs))"
  by (simp add: Storage_init_instances_def case_prod_unfold comp_def)

lemma Storage_init_instances_distinct: "distinct (map fst (Storage_init_instances xs))"
  by (simp add: Storage_init_instances_keys dict_of_distinct)

lemma Storage_init_instances_entry:
  "(k, x) \<in> set (Storage_init_instances xs) \<Longrightarrow> instance_id x = k \<and> version x = 0"
  using dict_of_entries [of "map (\<lambda>x. (instance_id x, x)) xs"]
  by (auto simp: Storage_init_instances_def)

subsection \<open>Single operations\<close>

lemma map_of_keys: "map_of al k = Some v \<Longrightarrow> k \<in> fst ` set al"
  by (metis map_of_SomeD fst_conv image_eqI)

lemma not_key_map_of: "k \<notin> fst ` set al \<Longrightarrow> map_of al k = None"
  by (simp add: map_of_eq_None_iff)

lemma update_existing_keys:
  "k \<in> fst ` set al \<Longrightarrow> map fst (AList.update k v al) = map fst al"
  by (simp add: AList.update_keys)

lemma apply_update_id:
  "apply_update i ver rp st x = Inr x' \<Longrightarrow> instance_id x' = instance_id x"
  by (auto simp: apply_update_def Let_def split: if_splits option.splits)

lemma apply_update_conflict:
  "ver \<noteq> version x \<Longrightarrow>
     apply_update i ver rp None x = Inl (StorageConflictError ver i (version x))"
  by (simp add: apply_update_def)


lemma apply_update_version:
  "apply_update i ver rp st x = Inr x' \<Longrightarrow> version x' = version x + 1"
  by (auto simp: apply_update_def Let_def split: if_splits option.splits)

lemma mem_inv_lock:
  assumes "InMemoryStorage_inv m" "map_of (mem_node_instances m) i = Some x"
  shows "lock (mem_locks m) i = Inr ()"
proof -
  have "i \<in> fst ` set (mem_node_instances m)"
    using assms(2) by (rule map_of_keys)
  then show ?thesis
    using assms(1) by (simp add: InMemoryStorage_inv_def lock_def)
qed

lemma file_inv_lock:
  assumes "FileStorage_inv f" "map_of (instances_dir f) i = Some x"
  shows "lock (file_locks f) i = Inr ()"
proof -
  have "i \<in> fst ` set (instances_dir f)"
    using assms(2) by (rule map_of_keys)
  then show ?thesis
    using assms(1) by (simp add: FileStorage_inv_def lock_def)
qed

lemma file_inv_id:
  "FileStorage_inv f \<Longrightarrow> map_of (instances_dir f) i = Some x \<Longrightarrow> instance_id x = i"
  by (auto simp: FileStorage_inv_def dest: map_of_SomeD)

lemma mem_update_conflict:
  assumes "InMemoryStorage_inv m" "map_of (mem_node_instances m) i = Some x" "ver \<noteq> version x"
  shows "InMemoryStorage_update_node_instance m i ver rp None
           = (Inl (StorageConflictError ver i (version x)), m)"
  using assms mem_inv_lock [OF assms(1,2)]
  by (simp add: InMemoryStorage_update_node_instance_def InMemoryStorage_load_instance_def
      Storage_get_node_instance_def apply_update_conflict)

lemma file_update_conflict:
  assumes "FileStorage_inv f" "map_of (instances_dir f) i = Some x" "ver \<noteq> version x"
  shows "FileStorage_update_node_instance f i ver rp None
           = (Inl (StorageConflictError ver i (version x)), f)"
  using assms file_inv_lock [OF assms(1,2)]
  by (simp add: FileStorage_update_node_instance_def FileStorage_load_instance_def
      Storage_get_node_instance_def apply_update_conflict)

lemma mem_get_stored:
  "map_of (mem_node_instances m) i = Some x \<Longrightarrow> InMemoryStorage_get_node_instance m i = Inr x"
  by (simp add: InMemoryStorage_get_node_instance_def InMemoryStorage_load_instance_def
      Storage_get_node_instance_def)

lemma file_get_stored:
  "FileStorage_inv f \<Longrightarrow> map_of (instances_dir f) i = Some x \<Longrightarrow>
     FileStorage_get_node_instance f i = Inr x"
  using file_inv_lock [of f i x]
  by (simp add: FileStorage_get_node_instance_def FileStorage_load_instance_def
      Storage_get_node_instance_def)

text \<open>An accepted update stores the instance that \<open>apply_update\<close> returns, under the
  id of the call.\<close>

lemma mem_update_accepted:
  assumes "InMemoryStorage_inv m" "map_of (mem_node_instances m) i = Some x"
    "apply_update i ver rp st x = Inr x'"
  shows "InMemoryStorage_update_node_instance m i ver rp st
           = (Inr (), m\<lparr>mem_node_instances := AList.update i x' (mem_node_instances m)\<rparr>)"
  using assms mem_inv_lock [OF assms(1,2)]
  by (simp add: InMemoryStorage_update_node_instance_def InMemoryStorage_load_instance_def
      Storage_get_node_instance_def)

lemma file_update_accepted:
  assumes "FileStorage_inv f" "map_of (instances_dir f) i = Some x"
    "apply_update i ver rp st x = Inr x'"
  shows "FileStorage_update_node_instance f i ver rp st
           = (Inr (), f\<lparr>instances_dir := AList.update i x' (instances_dir f)\<rparr>)"
proof -
  have "instance_id x' = i"
    using apply_update_id [OF assms(3)] file_inv_id [OF assms(1,2)] by simp
  then show ?thesis
    using assms file_inv_lock [OF assms(1,2)]
    by (simp add: FileStorage_update_node_instance_def FileStorage_load_instance_def
        Storage_get_node_instance_def FileStorage_store_instance_def)
qed

lemma mem_update_unknown:
  assumes "InMemoryStorage_inv m" "i \<notin> fst ` set (mem_node_instances m)"
  shows "InMemoryStorage_update_node_instance m i ver rp st = (Inl (KeyError i), m)"
  using assms
  by (simp add: InMemoryStorage_update_node_instance_def InMemoryStorage_inv_def lock_def)

lemma file_update_unknown:
  assumes "FileStorage_inv f" "i \<notin> fst ` set (instances_dir f)"
  shows "FileStorage_update_node_instance f i ver rp st = (Inl (KeyError i), f)"
  using assms
  by (simp add: FileStorage_update_node_instance_def FileStorage_inv_def lock_def)

lemma mem_get_unknown:
  assumes "i \<notin> fst ` set (mem_node_instances m)"
  shows "InMemoryStorage_get_node_instance m i = Inl (RuntimeError_instance i)"
  using not_key_map_of [OF assms]
  by (simp add: InMemoryStorage_get_node_instance_def InMemoryStorage_load_instance_def
      Storage_get_node_instance_def)

lemma file_get_unknown:
  assumes "FileStorage_inv f" "i \<notin> fst ` set (instances_dir f)"
  shows "FileStorage_get_node_instance f i = Inl (KeyError i)"
  using assms
  by (simp add: FileStorage_get_node_instance_def FileStorage_load_instance_def
      Storage_get_node_instance_def FileStorage_inv_def lock_def)

subsection \<open>The operations keep a store well-formed\<close>

lemma update_existing_entries:
  "(k, v) \<in> set (AList.update i x al) \<Longrightarrow> (k, v) = (i, x) \<or> (k, v) \<in> set al"
  using update_set_subset [of i x al] by auto

lemma inv_update_existing:
  assumes "distinct (map fst al)" "\<forall>(k, v) \<in> set al. instance_id v = k"
    "map_of al i = Some x" "instance_id x' = i"
  shows "distinct (map fst (AList.update i x' al))"
    and "fst ` set (AList.update i x' al) = fst ` set al"
    and "\<forall>(k, v) \<in> set (AList.update i x' al). instance_id v = k"
proof -
  show "distinct (map fst (AList.update i x' al))"
    using assms(1) by (rule AList.distinct_update)
  show "fst ` set (AList.update i x' al) = fst ` set al"
    using map_of_keys [OF assms(3)] by (auto simp: AList.dom_update)
  show "\<forall>(k, v) \<in> set (AList.update i x' al). instance_id v = k"
    using assms(2,4) by (auto dest: update_existing_entries)
qed

lemma mem_update_inv:
  assumes "InMemoryStorage_inv m"
  shows "InMemoryStorage_inv (snd (InMemoryStorage_update_node_instance m i ver rp st))"
proof (cases "map_of (mem_node_instances m) i")
  case None
  then have "snd (InMemoryStorage_update_node_instance m i ver rp st) = m"
    by (simp add: InMemoryStorage_update_node_instance_def InMemoryStorage_load_instance_def
        Storage_get_node_instance_def split: sum.splits)
  then show ?thesis using assms by simp
next
  case (Some x)
  show ?thesis
  proof (cases "apply_update i ver rp st x")
    case (Inl e)
    then have "snd (InMemoryStorage_update_node_instance m i ver rp st) = m"
      using Some
      by (simp add: InMemoryStorage_update_node_instance_def InMemoryStorage_load_instance_def
          Storage_get_node_instance_def split: sum.splits)
    then show ?thesis using assms by simp
  next
    case (Inr x')
    have id: "instance_id x' = i"
      using apply_update_id [OF Inr] assms Some
      by (auto simp: InMemoryStorage_inv_def dest: map_of_SomeD)
    have d: "distinct (map fst (mem_node_instances m))"
      and a: "\<forall>(k, v) \<in> set (mem_node_instances m). instance_id v = k"
      using assms by (simp_all add: InMemoryStorage_inv_def)
    show ?thesis
      unfolding mem_update_accepted [OF assms Some Inr]
      using inv_update_existing [OF d a Some id] assms
      by (simp add: InMemoryStorage_inv_def)
  qed
qed

lemma file_update_inv:
  assumes "FileStorage_inv f"
  shows "FileStorage_inv (snd (FileStorage_update_node_instance f i ver rp st))"
proof (cases "map_of (instances_dir f) i")
  case None
  then have "snd (FileStorage_update_node_instance f i ver rp st) = f"
    by (simp add: FileStorage_update_node_instance_def FileStorage_load_instance_def
        Storage_get_node_instance_def split: sum.splits)
  then show ?thesis using assms by simp
next
  case (Some x)
  show ?thesis
  proof (cases "apply_update i ver rp st x")
    case (Inl e)
    then have "snd (FileStorage_update_node_instance f i ver rp st) = f"
      using Some
      by (simp add: FileStorage_update_node_instance_def FileStorage_load_instance_def
          Storage_get_node_instance_def split: sum.splits)
    then show ?thesis using assms by simp
  next
    case (Inr x')
    have id: "instance_id x' = i"
      using apply_update_id [OF Inr] file_inv_id [OF assms Some] by simp
    have d: "distinct (map fst (instances_dir f))"
      and a: "\<forall>(k, v) \<in> set (instances_dir f). instance_id v = k"
      using assms by (simp_all add: FileStorage_inv_def)
    show ?thesis
      unfolding file_update_accepted [OF assms Some Inr]
      using inv_update_existing [OF d a Some id] assms
      by (simp add: FileStorage_inv_def)
  qed
qed

subsection \<open>Construction\<close>

lemma update_absent: "k \<notin> fst ` set d \<Longrightarrow> AList.update k v d = d @ [(k, v)]"
  by (induction d) auto

lemma fold_write_own_id:
  assumes "distinct (map fst al)" "\<forall>(k, x) \<in> set al. instance_id x = k"
    "fst ` set al \<inter> fst ` set d = {}"
  shows "fold (\<lambda>x d. AList.update (instance_id x) x d) (map snd al) d = d @ al"
  using assms
proof (induction al arbitrary: d)
  case Nil
  show ?case by simp
next
  case (Cons p al)
  obtain k x where p: "p = (k, x)" by (cases p)
  have id: "instance_id x = k" using Cons.prems(2) by (simp add: p)
  have absent: "k \<notin> fst ` set d" using Cons.prems(3) by (auto simp: p)
  have step: "AList.update k x d = d @ [(k, x)]" using absent by (rule update_absent)
  have "fold (\<lambda>x d. AList.update (instance_id x) x d) (map snd al) (d @ [(k, x)])
          = (d @ [(k, x)]) @ al"
  proof (rule Cons.IH)
    show "distinct (map fst al)" using Cons.prems(1) by simp
    show "\<forall>(k, x) \<in> set al. instance_id x = k" using Cons.prems(2) by simp
    show "fst ` set al \<inter> fst ` set (d @ [(k, x)]) = {}"
      using Cons.prems(1,3) by (auto simp: p)
  qed
  then show ?case by (simp add: p id step)
qed

lemma fold_store_unlocked:
  "fold (\<lambda>x s. snd (FileStorage_store_instance s x False)) xs s
     = s\<lparr>instances_dir := fold (\<lambda>x d. AList.update (instance_id x) x d) xs (instances_dir s)\<rparr>"
  by (induction xs arbitrary: s) (simp_all add: FileStorage_store_instance_def)

lemma Storage_init_instances_own_id:
  "\<forall>(k, x) \<in> set (Storage_init_instances xs). instance_id x = k"
  using Storage_init_instances_entry by blast

lemma FileStorage_init_fresh:
  assumes "fresh dsk clear"
  shows "FileStorage_init nm root nodes xs dsk clear
           = \<lparr>file_name = nm, file_resources_root = root,
               file_nodes = Storage_init_nodes nodes,
               file_locks = map fst (Storage_init_instances xs),
               instances_dir = Storage_init_instances xs\<rparr>"
proof -
  have w: "fold (\<lambda>x d. AList.update (instance_id x) x d)
             (map snd (Storage_init_instances xs)) [] = Storage_init_instances xs"
    using fold_write_own_id [OF Storage_init_instances_distinct
        Storage_init_instances_own_id, of xs "[]"] by simp
  show ?thesis
  proof (cases dsk)
    case NoStorageDir
    then show ?thesis by (simp add: FileStorage_init_def Let_def fold_store_unlocked w)
  next
    case (StorageDir d)
    show ?thesis
    proof (cases d)
      case None
      then show ?thesis
        using StorageDir by (simp add: FileStorage_init_def Let_def fold_store_unlocked w)
    next
      case (Some files)
      then have "clear" using assms StorageDir by simp
      then show ?thesis
        using StorageDir by (simp add: FileStorage_init_def Let_def fold_store_unlocked w)
    qed
  qed
qed

lemma FileStorage_init_reopened:
  "FileStorage_init nm root nodes xs (StorageDir (Some files)) False
           = \<lparr>file_name = nm, file_resources_root = root,
               file_nodes = Storage_init_nodes nodes,
               file_locks = map fst files,
               instances_dir = files\<rparr>"
  by (simp add: FileStorage_init_def)

lemma InMemoryStorage_init_inv: "InMemoryStorage_inv (InMemoryStorage_init nm root nodes xs)"
  using Storage_init_instances_own_id [of xs]
  by (simp add: InMemoryStorage_inv_def InMemoryStorage_init_def Let_def
      Storage_init_instances_distinct)

lemma FileStorage_init_inv:
  "fresh dsk clear \<Longrightarrow> FileStorage_inv (FileStorage_init nm root nodes xs dsk clear)"
  using Storage_init_instances_own_id [of xs]
  by (simp add: FileStorage_inv_def FileStorage_init_fresh Storage_init_instances_distinct)

lemma InMemoryStorage_init_version:
  "map_of (mem_node_instances (InMemoryStorage_init nm root nodes xs)) i = Some x
     \<Longrightarrow> version x = 0"
  using Storage_init_instances_entry [of i x xs]
  by (auto simp: InMemoryStorage_init_def Let_def dest: map_of_SomeD)

lemma FileStorage_init_version:
  "fresh dsk clear \<Longrightarrow>
   map_of (instances_dir (FileStorage_init nm root nodes xs dsk clear)) i = Some x
     \<Longrightarrow> version x = 0"
  using Storage_init_instances_entry [of i x xs]
  by (auto simp: FileStorage_init_fresh dest: map_of_SomeD)

subsection \<open>\<^verbatim>\<open>update_node_instance\<close> on a well-formed store\<close>

text \<open>On a well-formed store both backends do the same: no lock and no instance for an
  unknown id, else the outcome of \<open>apply_update\<close>.\<close>

lemma mem_update_normal:
  assumes "InMemoryStorage_inv m"
  shows "InMemoryStorage_update_node_instance m i ver rp st =
     (case map_of (mem_node_instances m) i of
        None \<Rightarrow> (Inl (KeyError i), m)
      | Some x \<Rightarrow>
          (case apply_update i ver rp st x of
             Inl e \<Rightarrow> (Inl e, m)
           | Inr x' \<Rightarrow>
               (Inr (), m\<lparr>mem_node_instances := AList.update i x' (mem_node_instances m)\<rparr>)))"
proof (cases "map_of (mem_node_instances m) i")
  case None
  then have "i \<notin> fst ` set (mem_node_instances m)"
    by (simp add: map_of_eq_None_iff)
  then show ?thesis
    using None mem_update_unknown [OF assms] by simp
next
  case (Some x)
  show ?thesis
  proof (cases "apply_update i ver rp st x")
    case (Inl e)
    then show ?thesis
      using Some mem_inv_lock [OF assms Some]
      by (simp add: InMemoryStorage_update_node_instance_def InMemoryStorage_load_instance_def
          Storage_get_node_instance_def)
  next
    case (Inr x')
    then show ?thesis
      using Some mem_update_accepted [OF assms Some Inr] by simp
  qed
qed

lemma file_update_normal:
  assumes "FileStorage_inv f"
  shows "FileStorage_update_node_instance f i ver rp st =
     (case map_of (instances_dir f) i of
        None \<Rightarrow> (Inl (KeyError i), f)
      | Some x \<Rightarrow>
          (case apply_update i ver rp st x of
             Inl e \<Rightarrow> (Inl e, f)
           | Inr x' \<Rightarrow>
               (Inr (), f\<lparr>instances_dir := AList.update i x' (instances_dir f)\<rparr>)))"
proof (cases "map_of (instances_dir f) i")
  case None
  then have "i \<notin> fst ` set (instances_dir f)"
    by (simp add: map_of_eq_None_iff)
  then show ?thesis
    using None file_update_unknown [OF assms] by simp
next
  case (Some x)
  show ?thesis
  proof (cases "apply_update i ver rp st x")
    case (Inl e)
    then show ?thesis
      using Some file_inv_lock [OF assms Some]
      by (simp add: FileStorage_update_node_instance_def FileStorage_load_instance_def
          Storage_get_node_instance_def)
  next
    case (Inr x')
    then show ?thesis
      using Some file_update_accepted [OF assms Some Inr] by simp
  qed
qed

subsection \<open>\<^verbatim>\<open>get_node_instances\<close>\<close>

lemma collect_all:
  "(\<forall>k \<in> set ks. g k = Inr (h k)) \<Longrightarrow> collect g ks = Inr (map h ks)"
  by (induction ks) simp_all

lemma values_by_key:
  "distinct (map fst al) \<Longrightarrow> map (\<lambda>k. the (map_of al k)) (map fst al) = map snd al"
  by (induction al) (auto simp: rev_image_eqI)

lemma file_get_all:
  assumes "FileStorage_inv f"
  shows "FileStorage_get_node_instances f = Inr (map snd (instances_dir f))"
proof -
  have d: "distinct (map fst (instances_dir f))"
    using assms by (simp add: FileStorage_inv_def)
  have "\<forall>k \<in> set (map fst (instances_dir f)).
          FileStorage_get_node_instance f k = Inr (the (map_of (instances_dir f) k))"
  proof
    fix k assume "k \<in> set (map fst (instances_dir f))"
    then obtain x where "map_of (instances_dir f) k = Some x"
      by (metis list.set_map map_of_eq_None_iff not_None_eq)
    then show "FileStorage_get_node_instance f k = Inr (the (map_of (instances_dir f) k))"
      using file_get_stored [OF assms] by simp
  qed
  then have "collect (FileStorage_get_node_instance f) (map fst (instances_dir f))
               = Inr (map (\<lambda>k. the (map_of (instances_dir f) k)) (map fst (instances_dir f)))"
    by (rule collect_all)
  then show ?thesis
    by (simp only: FileStorage_get_node_instances_def FileStorage_instance_ids_def
        values_by_key [OF d])
qed


lemma run_Cons:
  "run step s (x # xs) =
     (fst (step s x) # fst (run step (snd (step s x)) xs), snd (run step (snd (step s x)) xs))"
  by (simp add: case_prod_unfold)

lemma mem_step_inv:
  "InMemoryStorage_inv m \<Longrightarrow> InMemoryStorage_inv (snd (InMemoryStorage_step m x))"
  using mem_update_inv by (cases x) (simp_all add: case_prod_unfold)

lemma file_step_inv:
  "FileStorage_inv f \<Longrightarrow> FileStorage_inv (snd (FileStorage_step f x))"
  using file_update_inv by (cases x) (simp_all add: case_prod_unfold)

lemma mem_run_inv:
  "InMemoryStorage_inv m \<Longrightarrow> InMemoryStorage_inv (snd (run InMemoryStorage_step m ops))"
  by (induction ops arbitrary: m) (simp_all add: run_Cons mem_step_inv del: run.simps(2))

lemma file_run_inv:
  "FileStorage_inv f \<Longrightarrow> FileStorage_inv (snd (run FileStorage_step f ops))"
  by (induction ops arbitrary: f) (simp_all add: run_Cons file_step_inv del: run.simps(2))

subsection \<open>Versions along a run\<close>

lemma mem_step_version:
  assumes "InMemoryStorage_inv m" "map_of (mem_node_instances m) i = Some x"
  shows "\<exists>x'. map_of (mem_node_instances (snd (InMemoryStorage_step m op))) i = Some x' \<and>
           version x' = version x +
             (if successful_update i (op, fst (InMemoryStorage_step m op)) then 1 else 0)"
proof (cases op)
  case (Get_node_instance j)
  then show ?thesis using assms by simp
next
  case Get_node_instances
  then show ?thesis using assms by simp
next
  case (Update_node_instance j ver rp st)
  show ?thesis
  proof (cases "map_of (mem_node_instances m) j")
    case None
    then show ?thesis
      using assms Update_node_instance by (simp add: mem_update_normal)
  next
    case (Some y)
    show ?thesis
    proof (cases "apply_update j ver rp st y")
      case (Inl e)
      then show ?thesis
        using assms Update_node_instance Some by (simp add: mem_update_normal)
    next
      case (Inr y')
      show ?thesis
      proof (cases "j = i")
        case True
        then have "version y' = version x + 1"
          using apply_update_version [OF Inr] Some assms(2) by simp
        then show ?thesis
          using assms Update_node_instance Some Inr True
          by (simp add: mem_update_normal AList.update_conv')
      next
        case False
        then show ?thesis
          using assms Update_node_instance Some Inr
          by (simp add: mem_update_normal AList.update_conv')
      qed
    qed
  qed
qed

lemma file_step_version:
  assumes "FileStorage_inv f" "map_of (instances_dir f) i = Some x"
  shows "\<exists>x'. map_of (instances_dir (snd (FileStorage_step f op))) i = Some x' \<and>
           version x' = version x +
             (if successful_update i (op, fst (FileStorage_step f op)) then 1 else 0)"
proof (cases op)
  case (Get_node_instance j)
  then show ?thesis using assms by simp
next
  case Get_node_instances
  then show ?thesis using assms by simp
next
  case (Update_node_instance j ver rp st)
  show ?thesis
  proof (cases "map_of (instances_dir f) j")
    case None
    then show ?thesis
      using assms Update_node_instance by (simp add: file_update_normal)
  next
    case (Some y)
    show ?thesis
    proof (cases "apply_update j ver rp st y")
      case (Inl e)
      then show ?thesis
        using assms Update_node_instance Some by (simp add: file_update_normal)
    next
      case (Inr y')
      show ?thesis
      proof (cases "j = i")
        case True
        then have "version y' = version x + 1"
          using apply_update_version [OF Inr] Some assms(2) by simp
        then show ?thesis
          using assms Update_node_instance Some Inr True
          by (simp add: file_update_normal AList.update_conv')
      next
        case False
        then show ?thesis
          using assms Update_node_instance Some Inr
          by (simp add: file_update_normal AList.update_conv')
      qed
    qed
  qed
qed

lemma successes_Cons:
  "successes i (x # xs) (r # rs) = (if successful_update i (x, r) then 1 else 0) + successes i xs rs"
  by (simp add: successes_def)

lemma mem_run_version:
  assumes "InMemoryStorage_inv m" "map_of (mem_node_instances m) i = Some x"
  shows "\<exists>x'. map_of (mem_node_instances (snd (run InMemoryStorage_step m ops))) i = Some x' \<and>
           version x' = version x + int (successes i ops (fst (run InMemoryStorage_step m ops)))"
  using assms
proof (induction ops arbitrary: m x)
  case Nil
  then show ?case by (simp add: successes_def)
next
  case (Cons op ops)
  obtain x1 where x1: "map_of (mem_node_instances (snd (InMemoryStorage_step m op))) i = Some x1"
    and v1: "version x1 = version x +
               (if successful_update i (op, fst (InMemoryStorage_step m op)) then 1 else 0)"
    using mem_step_version [OF Cons.prems] by blast
  have inv1: "InMemoryStorage_inv (snd (InMemoryStorage_step m op))"
    using Cons.prems(1) by (rule mem_step_inv)
  obtain x' where
    "map_of (mem_node_instances (snd (run InMemoryStorage_step (snd (InMemoryStorage_step m op)) ops))) i
       = Some x'"
    "version x' = version x1 +
       int (successes i ops (fst (run InMemoryStorage_step (snd (InMemoryStorage_step m op)) ops)))"
    using Cons.IH [OF inv1 x1] by blast
  then show ?case
    using v1 by (simp add: run_Cons successes_Cons del: run.simps(2))
qed

lemma file_run_version:
  assumes "FileStorage_inv f" "map_of (instances_dir f) i = Some x"
  shows "\<exists>x'. map_of (instances_dir (snd (run FileStorage_step f ops))) i = Some x' \<and>
           version x' = version x + int (successes i ops (fst (run FileStorage_step f ops)))"
  using assms
proof (induction ops arbitrary: f x)
  case Nil
  then show ?case by (simp add: successes_def)
next
  case (Cons op ops)
  obtain x1 where x1: "map_of (instances_dir (snd (FileStorage_step f op))) i = Some x1"
    and v1: "version x1 = version x +
               (if successful_update i (op, fst (FileStorage_step f op)) then 1 else 0)"
    using file_step_version [OF Cons.prems] by blast
  have inv1: "FileStorage_inv (snd (FileStorage_step f op))"
    using Cons.prems(1) by (rule file_step_inv)
  obtain x' where
    "map_of (instances_dir (snd (run FileStorage_step (snd (FileStorage_step f op)) ops))) i
       = Some x'"
    "version x' = version x1 +
       int (successes i ops (fst (run FileStorage_step (snd (FileStorage_step f op)) ops)))"
    using Cons.IH [OF inv1 x1] by blast
  then show ?case
    using v1 by (simp add: run_Cons successes_Cons del: run.simps(2))
qed

subsection \<open>The file backend simulates the memory backend\<close>




lemma mem_get_Inr:
  "InMemoryStorage_get_node_instance m i = Inr x \<Longrightarrow> map_of (mem_node_instances m) i = Some x"
  by (simp add: InMemoryStorage_get_node_instance_def InMemoryStorage_load_instance_def
      Storage_get_node_instance_def split: option.splits)

lemma file_get_Inr:
  "FileStorage_get_node_instance f i = Inr x \<Longrightarrow> map_of (instances_dir f) i = Some x"
  by (simp add: FileStorage_get_node_instance_def FileStorage_load_instance_def
      Storage_get_node_instance_def split: option.splits sum.splits)

subsection \<open>The claims about the storage\<close>

text \<open>The definitions that evaluate the examples.\<close>

lemmas example_defs =
  example_memory_def example_files_def example_instance_def example_ops_def
  InMemoryStorage_init_def FileStorage_init_def Storage_init_instances_def Storage_init_nodes_def
  dict_of_def FileStorage_store_instance_def

lemmas storage_defs =
  InMemoryStorage_get_node_instance_def InMemoryStorage_load_instance_def
  InMemoryStorage_update_node_instance_def InMemoryStorage_get_node_instances_def
  FileStorage_get_node_instance_def FileStorage_load_instance_def
  FileStorage_update_node_instance_def FileStorage_get_node_instances_def
  FileStorage_instance_ids_def Storage_get_node_instance_def lock_def apply_update_def

text \<open>
  Claim C1.  On either backend, a call of \<^verbatim>\<open>update_node_instance\<close> for a stored instance
  that gives no state and a version other than the stored one raises
  \<^verbatim>\<open>StorageConflictError\<close>, and the store after the call is the store before it: the
  runtime properties, the state and the version of the instance are what they were.
\<close>

theorem stale_property_update_rejected:
  "(InMemoryStorage_inv m \<and> InMemoryStorage_get_node_instance m i = Inr x \<and> ver \<noteq> version x
      \<longrightarrow> InMemoryStorage_update_node_instance m i ver rp None
            = (Inl (StorageConflictError ver i (version x)), m))
   \<and> (FileStorage_inv f \<and> FileStorage_get_node_instance f i = Inr y \<and> ver \<noteq> version y
      \<longrightarrow> FileStorage_update_node_instance f i ver rp None
            = (Inl (StorageConflictError ver i (version y)), f))"
  using mem_update_conflict [of m i x ver rp] file_update_conflict [of f i y ver rp]
    mem_get_Inr [of m i x] file_get_Inr [of f i y]
  by blast

theorem stale_property_update_rejected_witness:
  "InMemoryStorage_update_node_instance example_memory ''web_1'' 5 None None
     = (Inl (StorageConflictError 5 ''web_1'' 0), example_memory)
   \<and> FileStorage_update_node_instance example_files ''web_1'' 5 None None
     = (Inl (StorageConflictError 5 ''web_1'' 0), example_files)"
proof -
  have m: "InMemoryStorage_inv example_memory"
    by (simp add: InMemoryStorage_inv_def example_defs)
  have f: "FileStorage_inv example_files"
    by (simp add: FileStorage_inv_def example_defs)
  have gm: "InMemoryStorage_get_node_instance example_memory ''web_1''
              = Inr (example_instance\<lparr>version := 0\<rparr>)"
    by (simp add: example_defs storage_defs)
  have gf: "FileStorage_get_node_instance example_files ''web_1''
              = Inr (example_instance\<lparr>version := 0\<rparr>)"
    by (simp add: example_defs storage_defs)
  show ?thesis
    using stale_property_update_rejected
      [of example_memory "''web_1''" "example_instance\<lparr>version := 0\<rparr>" 5 None
          example_files "example_instance\<lparr>version := 0\<rparr>"]
      m f gm gf
    by simp
qed



text \<open>
  Claim C5.  On either backend, \<^verbatim>\<open>update_node_instance\<close> and \<^verbatim>\<open>get_node_instance\<close> with
  an id that is not in the store fail with a NotFound failure, and the store after the
  failed update is the store before it.  The exception is the \<^verbatim>\<open>KeyError\<close> of the lock
  table, except for \<^verbatim>\<open>get_node_instance\<close> of the memory backend, which takes no lock and
  raises \<^verbatim>\<open>RuntimeError('Instance ... does not exist')\<close>.
\<close>

theorem unknown_instance_fails_and_writes_nothing:
  "(InMemoryStorage_inv m \<and> i \<notin> fst ` set (mem_node_instances m)
      \<longrightarrow> InMemoryStorage_update_node_instance m i ver rp st = (Inl (KeyError i), m) \<and>
          InMemoryStorage_get_node_instance m i = Inl (RuntimeError_instance i))
   \<and> (FileStorage_inv f \<and> i \<notin> fst ` set (instances_dir f)
      \<longrightarrow> FileStorage_update_node_instance f i ver rp st = (Inl (KeyError i), f) \<and>
          FileStorage_get_node_instance f i = Inl (KeyError i))
   \<and> NotFound (KeyError i) \<and> NotFound (RuntimeError_instance i)"
  using mem_update_unknown [of m i ver rp st] mem_get_unknown [of i m]
    file_update_unknown [of f i ver rp st] file_get_unknown [of f i]
  by simp

theorem unknown_instance_fails_and_writes_nothing_witness:
  "InMemoryStorage_update_node_instance example_memory ''db_1'' 0 None (Some ''started'')
     = (Inl (KeyError ''db_1''), example_memory)
   \<and> InMemoryStorage_get_node_instance example_memory ''db_1''
     = Inl (RuntimeError_instance ''db_1'')
   \<and> FileStorage_update_node_instance example_files ''db_1'' 0 None (Some ''started'')
     = (Inl (KeyError ''db_1''), example_files)
   \<and> FileStorage_get_node_instance example_files ''db_1'' = Inl (KeyError ''db_1'')"
proof -
  have m: "InMemoryStorage_inv example_memory"
    by (simp add: InMemoryStorage_inv_def example_defs)
  have f: "FileStorage_inv example_files"
    by (simp add: FileStorage_inv_def example_defs)
  have km: "''db_1'' \<notin> fst ` set (mem_node_instances example_memory)"
    by (simp add: example_defs)
  have kf: "''db_1'' \<notin> fst ` set (instances_dir example_files)"
    by (simp add: example_defs)
  show ?thesis
    using unknown_instance_fails_and_writes_nothing
      [of example_memory "''db_1''" 0 None "Some ''started''" example_files]
      m f km kf
    by simp
qed

lemmas step_defs =
  InMemoryStorage_step.simps FileStorage_step.simps run.simps successes_def
  successful_update.simps collect.simps

text \<open>
  Claim C3.  In a store constructed from the instances of a plan (for FileStorage: on a disk
  with no instances directory of the deployment, or with \<open>clear\<close>) every instance has
  version 0, and after any sequence of operations the version of an instance is the number
  of the successful \<^verbatim>\<open>update_node_instance\<close> calls for it in the sequence, state
  transitions and property updates alike.  In a well-formed store one operation adds 1 to
  the version of an instance when it is a successful update of that instance, and leaves
  the version as it is otherwise.
\<close>

theorem version_counts_successful_updates:
  "(InMemoryStorage_get_node_instance (InMemoryStorage_init nm root nodes xs) i = Inr x
      \<longrightarrow> version x = 0 \<and>
          (\<exists>x'. InMemoryStorage_get_node_instance
                   (snd (run InMemoryStorage_step (InMemoryStorage_init nm root nodes xs) ops)) i
                   = Inr x' \<and>
                 version x' =
                   int (successes i ops
                          (fst (run InMemoryStorage_step
                                  (InMemoryStorage_init nm root nodes xs) ops)))))
   \<and> (fresh dsk clear \<and>
      FileStorage_get_node_instance (FileStorage_init nm root nodes xs dsk clear) i = Inr y
      \<longrightarrow> version y = 0 \<and>
          (\<exists>y'. FileStorage_get_node_instance
                   (snd (run FileStorage_step (FileStorage_init nm root nodes xs dsk clear) ops)) i
                   = Inr y' \<and>
                 version y' =
                   int (successes i ops
                          (fst (run FileStorage_step
                                  (FileStorage_init nm root nodes xs dsk clear) ops)))))
   \<and> (InMemoryStorage_inv m \<and> InMemoryStorage_get_node_instance m i = Inr z
      \<longrightarrow> (\<exists>z'. InMemoryStorage_get_node_instance (snd (InMemoryStorage_step m op)) i = Inr z' \<and>
                 version z' = version z +
                   (if successful_update i (op, fst (InMemoryStorage_step m op)) then 1 else 0)))
   \<and> (FileStorage_inv f \<and> FileStorage_get_node_instance f i = Inr w
      \<longrightarrow> (\<exists>w'. FileStorage_get_node_instance (snd (FileStorage_step f op)) i = Inr w' \<and>
                 version w' = version w +
                   (if successful_update i (op, fst (FileStorage_step f op)) then 1 else 0)))"
proof (intro conjI impI)
  let ?m0 = "InMemoryStorage_init nm root nodes xs"
  assume a: "InMemoryStorage_get_node_instance ?m0 i = Inr x"
  have stored: "map_of (mem_node_instances ?m0) i = Some x"
    using a by (rule mem_get_Inr)
  show v0: "version x = 0"
    using stored by (rule InMemoryStorage_init_version)
  obtain x' where
    "map_of (mem_node_instances (snd (run InMemoryStorage_step ?m0 ops))) i = Some x'"
    "version x' = version x + int (successes i ops (fst (run InMemoryStorage_step ?m0 ops)))"
    using mem_run_version [OF InMemoryStorage_init_inv stored] by blast
  then show "\<exists>x'. InMemoryStorage_get_node_instance (snd (run InMemoryStorage_step ?m0 ops)) i
                  = Inr x' \<and>
                version x' = int (successes i ops (fst (run InMemoryStorage_step ?m0 ops)))"
    using v0 mem_get_stored by fastforce
next
  let ?f0 = "FileStorage_init nm root nodes xs dsk clear"
  assume a: "fresh dsk clear \<and> FileStorage_get_node_instance ?f0 i = Inr y"
  have inv0: "FileStorage_inv ?f0"
    using a by (simp add: FileStorage_init_inv)
  have stored: "map_of (instances_dir ?f0) i = Some y"
    using a file_get_Inr by blast
  show v0: "version y = 0"
    using a stored FileStorage_init_version by blast
  obtain y' where
    y': "map_of (instances_dir (snd (run FileStorage_step ?f0 ops))) i = Some y'"
    "version y' = version y + int (successes i ops (fst (run FileStorage_step ?f0 ops)))"
    using file_run_version [OF inv0 stored] by blast
  have "FileStorage_inv (snd (run FileStorage_step ?f0 ops))"
    using inv0 by (rule file_run_inv)
  then have "FileStorage_get_node_instance (snd (run FileStorage_step ?f0 ops)) i = Inr y'"
    using y'(1) by (rule file_get_stored)
  then show "\<exists>y'. FileStorage_get_node_instance (snd (run FileStorage_step ?f0 ops)) i = Inr y' \<and>
                version y' = int (successes i ops (fst (run FileStorage_step ?f0 ops)))"
    using v0 y'(2) by simp
next
  assume a: "InMemoryStorage_inv m \<and> InMemoryStorage_get_node_instance m i = Inr z"
  have stored: "map_of (mem_node_instances m) i = Some z"
    using a mem_get_Inr by blast
  obtain z' where
    "map_of (mem_node_instances (snd (InMemoryStorage_step m op))) i = Some z'"
    "version z' = version z +
       (if successful_update i (op, fst (InMemoryStorage_step m op)) then 1 else 0)"
    using mem_step_version [of m i z op] a stored by blast
  then show "\<exists>z'. InMemoryStorage_get_node_instance (snd (InMemoryStorage_step m op)) i = Inr z' \<and>
      version z' = version z +
        (if successful_update i (op, fst (InMemoryStorage_step m op)) then 1 else 0)"
    using mem_get_stored by blast
next
  assume a: "FileStorage_inv f \<and> FileStorage_get_node_instance f i = Inr w"
  have stored: "map_of (instances_dir f) i = Some w"
    using a file_get_Inr by blast
  obtain w' where
    w': "map_of (instances_dir (snd (FileStorage_step f op))) i = Some w'"
    "version w' = version w +
       (if successful_update i (op, fst (FileStorage_step f op)) then 1 else 0)"
    using file_step_version [of f i w op] a stored by blast
  have "FileStorage_inv (snd (FileStorage_step f op))"
    using a by (simp add: file_step_inv)
  then have "FileStorage_get_node_instance (snd (FileStorage_step f op)) i = Inr w'"
    using w'(1) by (rule file_get_stored)
  then show "\<exists>w'. FileStorage_get_node_instance (snd (FileStorage_step f op)) i = Inr w' \<and>
      version w' = version w +
        (if successful_update i (op, fst (FileStorage_step f op)) then 1 else 0)"
    using w'(2) by blast
qed

theorem version_counts_successful_updates_witness:
  "version (example_instance\<lparr>version := 0\<rparr>) = 0
   \<and> (\<exists>x'. InMemoryStorage_get_node_instance
              (snd (run InMemoryStorage_step example_memory example_ops)) ''web_1'' = Inr x' \<and>
            version x' = 2)
   \<and> (\<exists>y'. FileStorage_get_node_instance
              (snd (run FileStorage_step example_files example_ops)) ''web_1'' = Inr y' \<and>
            version y' = 2)
   \<and> (\<exists>z'. InMemoryStorage_get_node_instance
              (snd (InMemoryStorage_step example_memory
                      (Update_node_instance ''web_1'' 5 None None))) ''web_1'' = Inr z' \<and>
            version z' = 0)
   \<and> (\<exists>w'. FileStorage_get_node_instance
              (snd (FileStorage_step example_files
                      (Update_node_instance ''web_1'' 5 None (Some ''started'')))) ''web_1''
              = Inr w' \<and>
            version w' = 1)"
proof -
  have m: "InMemoryStorage_inv example_memory"
    by (simp add: InMemoryStorage_inv_def example_defs)
  have f: "FileStorage_inv example_files"
    by (simp add: FileStorage_inv_def example_defs)
  have gm: "InMemoryStorage_get_node_instance example_memory ''web_1''
              = Inr (example_instance\<lparr>version := 0\<rparr>)"
    by (simp add: example_defs storage_defs)
  have gf: "FileStorage_get_node_instance example_files ''web_1''
              = Inr (example_instance\<lparr>version := 0\<rparr>)"
    by (simp add: example_defs storage_defs)
  have fr: "fresh NoStorageDir False"
    by simp
  have sm: "successes ''web_1'' example_ops
              (fst (run InMemoryStorage_step example_memory example_ops)) = 2"
    by (simp add: example_defs storage_defs step_defs)
  have sf: "successes ''web_1'' example_ops
              (fst (run FileStorage_step example_files example_ops)) = 2"
    by (simp add: example_defs storage_defs step_defs)
  have um: "fst (InMemoryStorage_step example_memory (Update_node_instance ''web_1'' 5 None None))
              = Inl (StorageConflictError 5 ''web_1'' 0)"
    by (simp add: example_defs storage_defs step_defs)
  have uf: "fst (FileStorage_step example_files
                   (Update_node_instance ''web_1'' 5 None (Some ''started''))) = Inr Updated"
    by (simp add: example_defs storage_defs step_defs)
  have c1: "version (example_instance\<lparr>version := 0\<rparr>) = 0 \<and>
      (\<exists>x'. InMemoryStorage_get_node_instance
              (snd (run InMemoryStorage_step example_memory example_ops)) ''web_1'' = Inr x' \<and>
            version x' = 2)"
    using version_counts_successful_updates
      [of "''local''" "''/bp''" "[]" "[example_instance]" "''web_1''"
          "example_instance\<lparr>version := 0\<rparr>" example_ops]
      gm sm
    by (simp add: example_memory_def [symmetric])
  have c2: "\<exists>y'. FileStorage_get_node_instance
              (snd (run FileStorage_step example_files example_ops)) ''web_1'' = Inr y' \<and>
            version y' = 2"
    using version_counts_successful_updates
      [of "''local''" "''/bp''" "[]" "[example_instance]" "''web_1''" _ example_ops
          NoStorageDir False "example_instance\<lparr>version := 0\<rparr>"]
      gf sf fr
    by (simp add: example_files_def [symmetric])
  have c3: "\<exists>z'. InMemoryStorage_get_node_instance
              (snd (InMemoryStorage_step example_memory
                      (Update_node_instance ''web_1'' 5 None None))) ''web_1'' = Inr z' \<and>
            version z' = 0"
    using version_counts_successful_updates
      [of _ _ _ _ "''web_1''" _ _ _ _ _ example_memory "example_instance\<lparr>version := 0\<rparr>"
          "Update_node_instance ''web_1'' 5 None None"]
      m gm um
    by simp
  have c4: "\<exists>w'. FileStorage_get_node_instance
              (snd (FileStorage_step example_files
                      (Update_node_instance ''web_1'' 5 None (Some ''started'')))) ''web_1''
              = Inr w' \<and>
            version w' = 1"
    using version_counts_successful_updates
      [of _ _ _ _ "''web_1''" _ _ _ _ _ _ _
          "Update_node_instance ''web_1'' 5 None (Some ''started'')" example_files
          "example_instance\<lparr>version := 0\<rparr>"]
      f gf uf
    by simp
  show ?thesis
    using c1 c2 c3 c4 by blast
qed










section \<open>Properties of the parameter validation\<close>

lemma merge_declared_missing:
  "set (snd (merge_declared eps wps (merged, missing)))
     = set missing \<union> set (missing_mandatory eps wps)"
proof (induction wps arbitrary: merged missing)
  case Nil
  show ?case by (simp add: missing_mandatory_def)
next
  case (Cons a wps)
  obtain nm param where a: "a = (nm, param)" by (cases a)
  have none: "map_of eps nm = None \<longleftrightarrow> nm \<notin> fst ` set eps"
    by (simp add: map_of_eq_None_iff)
  have tail: "missing_mandatory eps ((nm, param) # wps) =
      (if default_value param = None \<and> nm \<notin> fst ` set eps then [nm] else [])
        @ missing_mandatory eps wps"
    by (simp add: missing_mandatory_def)
  show ?case
  proof (cases "default_value param")
    case (Some d)
    then show ?thesis by (simp add: a Cons.IH tail)
  next
    case None
    show ?thesis
    proof (cases "map_of eps nm")
      case (Some v)
      then have "nm \<in> fst ` set eps" using none by simp
      then show ?thesis using None Some by (simp add: a Cons.IH tail)
    next
      case n: None
      then have "nm \<notin> fst ` set eps" using none by simp
      then show ?thesis using None n by (simp add: a Cons.IH tail)
    qed
  qed
qed

lemma merge_declared_missing_distinct:
  "distinct missing \<Longrightarrow> distinct (snd (merge_declared eps wps (merged, missing)))"
proof (induction wps arbitrary: merged missing)
  case Nil
  then show ?case by simp
next
  case (Cons a wps)
  obtain nm param where a: "a = (nm, param)" by (cases a)
  show ?case
    using Cons.prems
    by (auto simp: a intro!: Cons.IH split: option.splits)
qed

lemma validate_missing:
  assumes "missing_mandatory (supplied_parameters params) (declared_parameters wfl) \<noteq> []"
  shows "\<exists>ns. merge_and_validate_execution_parameters wfl wn params allow
                 = Inl (ValueError_missing wn ns) \<and>
              set ns = set (missing_mandatory (supplied_parameters params)
                              (declared_parameters wfl)) \<and>
              distinct ns"
proof -
  let ?acc = "merge_declared (supplied_parameters params) (declared_parameters wfl) ([], [])"
  have s: "set (snd ?acc)
             = set (missing_mandatory (supplied_parameters params) (declared_parameters wfl))"
    using merge_declared_missing [of "supplied_parameters params" "declared_parameters wfl" "[]" "[]"]
    by simp
  then have ne: "snd ?acc \<noteq> []" using assms by auto
  have d: "distinct (snd ?acc)"
    by (rule merge_declared_missing_distinct) simp
  have "merge_and_validate_execution_parameters wfl wn params allow
          = Inl (ValueError_missing wn (snd ?acc))"
    using ne by (simp add: merge_and_validate_execution_parameters_def Let_def)
  then show ?thesis using s d by blast
qed

lemma validate_none_missing:
  assumes "missing_mandatory (supplied_parameters params) (declared_parameters wfl) = []"
  shows "merge_and_validate_execution_parameters wfl wn params allow =
     (let custom = filter (\<lambda>(k, v). k \<notin> set (map fst (declared_parameters wfl)))
                     (supplied_parameters params)
      in if \<not> allow \<and> custom \<noteq> [] then Inl (ValueError_custom wn (map fst custom))
         else Inr (fold (\<lambda>(k, v). AList.update k v) custom
                     (fst (merge_declared (supplied_parameters params)
                             (declared_parameters wfl) ([], [])))))"
proof -
  let ?acc = "merge_declared (supplied_parameters params) (declared_parameters wfl) ([], [])"
  have "set (snd ?acc) = {}"
    using merge_declared_missing [of "supplied_parameters params" "declared_parameters wfl" "[]" "[]"]
      assms by simp
  then have "snd ?acc = []" by simp
  then show ?thesis
    by (simp add: merge_and_validate_execution_parameters_def Let_def)
qed

lemma filter_keys_names: "map fst (filter (\<lambda>(k, v). P k) eps) = filter P (map fst eps)"
  by (induction eps) auto

lemma map_of_filter_keys:
  "map_of (filter (\<lambda>(k, v). P k) eps) k = (if P k then map_of eps k else None)"
  by (induction eps) auto

lemma custom_names:
  "map fst (filter (\<lambda>(k, v). k \<notin> set (map fst wps)) eps) = undeclared eps wps"
  using filter_keys_names [of "\<lambda>k. k \<notin> set (map fst wps)" eps]
  by (simp add: undeclared_def)

lemma map_of_custom:
  "map_of (filter (\<lambda>(k, v). k \<notin> set (map fst wps)) eps) k
     = (if k \<in> fst ` set wps then None else map_of eps k)"
  using map_of_filter_keys [of "\<lambda>k. k \<notin> set (map fst wps)" eps k]
  by simp

lemma fold_update_map_of:
  "distinct (map fst kvs) \<Longrightarrow>
     map_of (fold (\<lambda>(k, v). AList.update k v) kvs d) k
       = (case map_of kvs k of Some v \<Rightarrow> Some v | None \<Rightarrow> map_of d k)"
proof (induction kvs arbitrary: d)
  case Nil
  show ?case by simp
next
  case (Cons a kvs)
  obtain k' v' where a: "a = (k', v')" by (cases a)
  have notin: "k' \<notin> fst ` set kvs" and d: "distinct (map fst kvs)"
    using Cons.prems by (auto simp: a)
  have none: "map_of kvs k' = None"
    using notin by (simp add: map_of_eq_None_iff)
  show ?case
    using none by (simp add: a Cons.IH [OF d] AList.update_conv' split: option.splits)
qed

lemma merge_declared_value:
  assumes "distinct (map fst wps)"
  shows "map_of (fst (merge_declared eps wps (merged, missing))) k
     = (case map_of wps k of
          None \<Rightarrow> map_of merged k
        | Some param \<Rightarrow>
            (case map_of eps k of
               Some v \<Rightarrow> Some v
             | None \<Rightarrow> (case default_value param of Some d \<Rightarrow> Some d | None \<Rightarrow> map_of merged k)))"
  using assms
proof (induction wps arbitrary: merged missing)
  case Nil
  show ?case by simp
next
  case (Cons a wps)
  obtain nm param where a: "a = (nm, param)" by (cases a)
  have notin: "nm \<notin> fst ` set wps" and d: "distinct (map fst wps)"
    using Cons.prems by (auto simp: a)
  have none: "map_of wps nm = None"
    using notin by (simp add: map_of_eq_None_iff)
  show ?case
    using none
    by (cases "default_value param"; cases "map_of eps nm")
      (auto simp: a Cons.IH [OF d] AList.update_conv' split: option.splits)
qed

lemma filter_keys_distinct:
  "distinct (map fst eps) \<Longrightarrow> distinct (map fst (filter P eps))"
  by (induction eps) auto

lemma validate_merged:
  assumes "distinct (map fst (declared_parameters wfl))"
    "distinct (map fst (supplied_parameters params))"
    "missing_mandatory (supplied_parameters params) (declared_parameters wfl) = []"
    "allow \<or> undeclared (supplied_parameters params) (declared_parameters wfl) = []"
  shows "\<exists>mp. merge_and_validate_execution_parameters wfl wn params allow = Inr mp \<and>
              (\<forall>k. map_of mp k
                     = merged_value (supplied_parameters params) (declared_parameters wfl) k)"
proof -
  let ?wps = "declared_parameters wfl" and ?eps = "supplied_parameters params"
  let ?custom = "filter (\<lambda>(k, v). k \<notin> set (map fst ?wps)) ?eps"
  let ?m0 = "fst (merge_declared ?eps ?wps ([], []))"
  let ?mp = "fold (\<lambda>(k, v). AList.update k v) ?custom ?m0"
  have "\<not> (\<not> allow \<and> ?custom \<noteq> [])"
    using assms(4) custom_names [of ?wps ?eps] by auto
  then have r: "merge_and_validate_execution_parameters wfl wn params allow = Inr ?mp"
    using validate_none_missing [OF assms(3), of wn allow] by (simp add: Let_def)
  have dc: "distinct (map fst ?custom)"
    using assms(2) by (rule filter_keys_distinct)
  have "map_of ?mp k = merged_value ?eps ?wps k" for k
  proof -
    have f1: "map_of ?mp k
                = (case map_of ?custom k of Some v \<Rightarrow> Some v | None \<Rightarrow> map_of ?m0 k)"
      by (rule fold_update_map_of [OF dc])
    have f2: "map_of ?custom k = (if k \<in> fst ` set ?wps then None else map_of ?eps k)"
      by (rule map_of_custom)
    have f3: "map_of ?m0 k
      = (case map_of ?wps k of
           None \<Rightarrow> map_of [] k
         | Some param \<Rightarrow>
             (case map_of ?eps k of
                Some v \<Rightarrow> Some v
              | None \<Rightarrow> (case default_value param of Some d \<Rightarrow> Some d | None \<Rightarrow> map_of [] k)))"
      by (rule merge_declared_value [OF assms(1)])
    show ?thesis
    proof (cases "map_of ?wps k")
      case None
      then have "k \<notin> fst ` set ?wps" by (simp add: map_of_eq_None_iff)
      then show ?thesis
        unfolding f1 f2 f3 using None
        by (simp add: merged_value_def split: option.splits)
    next
      case (Some param)
      then have k: "k \<in> fst ` set ?wps" by (rule map_of_keys)
      have "default_value param \<noteq> None" if n: "map_of ?eps k = None"
      proof
        assume dflt: "default_value param = None"
        have "(k, param) \<in> set ?wps" using Some by (rule map_of_SomeD)
        moreover have "k \<notin> fst ` set ?eps" using n by (simp add: map_of_eq_None_iff)
        ultimately have "k \<in> set (missing_mandatory ?eps ?wps)"
          using dflt by (force simp: missing_mandatory_def)
        then show False using assms(3) by simp
      qed
      then show ?thesis
        unfolding f1 f2 f3 using Some k
        by (auto simp: merged_value_def split: option.splits)
    qed
  qed
  then show ?thesis using r by blast
qed

lemma validate_custom:
  assumes "missing_mandatory (supplied_parameters params) (declared_parameters wfl) = []"
    "\<not> allow" "undeclared (supplied_parameters params) (declared_parameters wfl) \<noteq> []"
  shows "merge_and_validate_execution_parameters wfl wn params allow
           = Inl (ValueError_custom wn
                    (undeclared (supplied_parameters params) (declared_parameters wfl)))"
proof -
  let ?wps = "declared_parameters wfl" and ?eps = "supplied_parameters params"
  let ?custom = "filter (\<lambda>(k, v). k \<notin> set (map fst ?wps)) ?eps"
  have n: "map fst ?custom = undeclared ?eps ?wps"
    by (rule custom_names)
  then have "?custom \<noteq> []" using assms(3) by auto
  then show ?thesis
    using validate_none_missing [OF assms(1), of wn allow] assms(2) n
    by (simp add: Let_def)
qed

lemma execute_resolved:
  assumes "resolves mods env wn wfl impl"
  shows "execute mods env eid wn params allow tr tri tps =
     (case merge_and_validate_execution_parameters wfl wn params allow of
        Inl e \<Rightarrow> Inl e
      | Inr mp \<Rightarrow>
          if ''__cloudify_context'' \<in> fst ` set mp
          then Inl (TypeError_keyword ''__cloudify_context'')
          else Inr \<lparr>workflow_method = impl,
                    cloudify_ctx =
                      \<lparr>ctx_local = True, ctx_deployment_id = env_name env,
                       ctx_blueprint_id = env_name env, ctx_execution_id = eid,
                       ctx_workflow_id = wn, ctx_storage = env_storage env,
                       ctx_task_retries = tr, ctx_task_retry_interval = tri,
                       ctx_local_task_thread_pool_size = tps\<rparr>,
                    kwargs = mp\<rparr>)"
  using assms by (simp add: execute_def resolves_def Let_def)

lemma execute_invalid:
  assumes "map_of (workflows (env_plan env)) wn = Some wfl"
    "merge_and_validate_execution_parameters wfl wn params allow = Inl e"
  shows "\<exists>e'. execute mods env eid wn params allow tr tri tps = Inl e'"
  using assms by (simp add: execute_def Let_def split: sum.splits)

lemmas parameter_defs =
  merge_and_validate_execution_parameters_def declared_parameters_def supplied_parameters_def
  missing_mandatory_def undeclared_def merged_value_def resolves_def get_module_method_def
  import_module_def module_name_of_def method_name_of_def
  execute_def example_workflow_def example_modules_def example_plan_def
  example_environment_def

text \<open>
  Claim C6.  When the caller leaves out declared parameters that have no default,
  \<^verbatim>\<open>_merge_and_validate_execution_parameters\<close> raises one \<^verbatim>\<open>ValueError\<close> whose list of
  names is the set of all of them, whatever \<open>allow_custom_parameters\<close> is.  \<open>execute\<close> on
  a workflow of the plan then raises and makes no call of the implementation; when the
  implementation of the workflow is found, what it raises is that \<^verbatim>\<open>ValueError\<close>.
\<close>

theorem missing_mandatory_parameters_all_reported:
  "missing_mandatory (supplied_parameters params) (declared_parameters wfl) \<noteq> [] \<longrightarrow>
     (\<exists>ns. merge_and_validate_execution_parameters wfl wn params allow
              = Inl (ValueError_missing wn ns) \<and>
           set ns = set (missing_mandatory (supplied_parameters params)
                           (declared_parameters wfl)) \<and>
           distinct ns \<and>
           (map_of (workflows (env_plan env)) wn = Some wfl \<longrightarrow>
              (\<exists>e. execute mods env eid wn params allow tr tri tps = Inl e)) \<and>
           (resolves mods env wn wfl impl \<longrightarrow>
              execute mods env eid wn params allow tr tri tps = Inl (ValueError_missing wn ns)))"
proof
  assume a: "missing_mandatory (supplied_parameters params) (declared_parameters wfl) \<noteq> []"
  obtain ns where ns: "merge_and_validate_execution_parameters wfl wn params allow
                         = Inl (ValueError_missing wn ns)"
    and s: "set ns = set (missing_mandatory (supplied_parameters params)
                            (declared_parameters wfl))"
    and d: "distinct ns"
    using validate_missing [OF a, of wn allow] by blast
  have "map_of (workflows (env_plan env)) wn = Some wfl \<longrightarrow>
          (\<exists>e. execute mods env eid wn params allow tr tri tps = Inl e)"
    using execute_invalid [of env wn wfl params allow _ mods eid tr tri tps] ns by blast
  moreover have "resolves mods env wn wfl impl \<longrightarrow>
          execute mods env eid wn params allow tr tri tps = Inl (ValueError_missing wn ns)"
    using execute_resolved [of mods env wn wfl impl eid params allow tr tri tps] ns by simp
  ultimately show "\<exists>ns. merge_and_validate_execution_parameters wfl wn params allow
              = Inl (ValueError_missing wn ns) \<and>
           set ns = set (missing_mandatory (supplied_parameters params)
                           (declared_parameters wfl)) \<and>
           distinct ns \<and>
           (map_of (workflows (env_plan env)) wn = Some wfl \<longrightarrow>
              (\<exists>e. execute mods env eid wn params allow tr tri tps = Inl e)) \<and>
           (resolves mods env wn wfl impl \<longrightarrow>
              execute mods env eid wn params allow tr tri tps = Inl (ValueError_missing wn ns))"
    using ns s d by blast
qed

theorem missing_mandatory_parameters_all_reported_witness:
  "\<exists>ns. merge_and_validate_execution_parameters example_workflow ''deploy''
           (Some [(''retries'', PInt 5)]) True = Inl (ValueError_missing ''deploy'' ns) \<and>
        set ns = {''x'', ''y''} \<and>
        execute example_modules example_environment ''e1'' ''deploy''
          (Some [(''retries'', PInt 5)]) True (-1) 30 1 = Inl (ValueError_missing ''deploy'' ns)"
proof -
  have h: "missing_mandatory (supplied_parameters (Some [(''retries'', PInt 5)]))
             (declared_parameters example_workflow) \<noteq> []"
    by (simp add: parameter_defs)
  have s: "set (missing_mandatory (supplied_parameters (Some [(''retries'', PInt 5)]))
             (declared_parameters example_workflow)) = {''x'', ''y''}"
    by (simp add: parameter_defs)
  have r: "resolves example_modules example_environment ''deploy'' example_workflow
             (''flows'', ''deploy'')"
    by (simp add: parameter_defs)
  show ?thesis
    using missing_mandatory_parameters_all_reported
      [of "Some [(''retries'', PInt 5)]" example_workflow "''deploy''" True
          example_environment example_modules "''e1''" "-1" 30 1 "(''flows'', ''deploy'')"]
      h s r
    by auto
qed

text \<open>
  Claim C7, as the source has it.  The caller supplies every mandatory parameter.  With
  \<open>allow_custom_parameters\<close> false and parameters that the workflow does not declare,
  \<^verbatim>\<open>_merge_and_validate_execution_parameters\<close> raises the \<^verbatim>\<open>ValueError\<close> that lists all of
  them, and so does \<open>execute\<close>.  With \<open>allow_custom_parameters\<close> true, or with no such
  parameter, it returns the merged parameters: every declared name has the caller's value
  when supplied and else its default, and every other name has the caller's value.
  \<open>execute\<close> calls the implementation with these as its keyword arguments when none of
  them has the name \<^verbatim>\<open>__cloudify_context\<close>, the keyword of the context; when one has, the
  call raises \<^verbatim>\<open>TypeError\<close> and the implementation is not entered.
\<close>

theorem custom_parameters_rejected_or_passed_through:
  "distinct (map fst (declared_parameters wfl)) \<and>
   distinct (map fst (supplied_parameters params)) \<and>
   missing_mandatory (supplied_parameters params) (declared_parameters wfl) = [] \<longrightarrow>
     (\<not> allow \<and> undeclared (supplied_parameters params) (declared_parameters wfl) \<noteq> [] \<longrightarrow>
        merge_and_validate_execution_parameters wfl wn params allow
          = Inl (ValueError_custom wn
                   (undeclared (supplied_parameters params) (declared_parameters wfl))) \<and>
        (resolves mods env wn wfl impl \<longrightarrow>
           execute mods env eid wn params allow tr tri tps
             = Inl (ValueError_custom wn
                      (undeclared (supplied_parameters params) (declared_parameters wfl))))) \<and>
     (allow \<or> undeclared (supplied_parameters params) (declared_parameters wfl) = [] \<longrightarrow>
        (\<exists>mp. merge_and_validate_execution_parameters wfl wn params allow = Inr mp \<and>
              (\<forall>k. map_of mp k
                     = merged_value (supplied_parameters params) (declared_parameters wfl) k) \<and>
              (resolves mods env wn wfl impl \<and>
               merged_value (supplied_parameters params) (declared_parameters wfl)
                 ''__cloudify_context'' = None \<longrightarrow>
                 (\<exists>call. execute mods env eid wn params allow tr tri tps = Inr call \<and>
                         workflow_method call = impl \<and> kwargs call = mp)) \<and>
              (resolves mods env wn wfl impl \<and>
               merged_value (supplied_parameters params) (declared_parameters wfl)
                 ''__cloudify_context'' \<noteq> None \<longrightarrow>
                 execute mods env eid wn params allow tr tri tps
                   = Inl (TypeError_keyword ''__cloudify_context''))))"
proof (intro impI conjI)
  assume a: "distinct (map fst (declared_parameters wfl)) \<and>
   distinct (map fst (supplied_parameters params)) \<and>
   missing_mandatory (supplied_parameters params) (declared_parameters wfl) = []"
  and b: "\<not> allow \<and> undeclared (supplied_parameters params) (declared_parameters wfl) \<noteq> []"
  show c: "merge_and_validate_execution_parameters wfl wn params allow
          = Inl (ValueError_custom wn
                   (undeclared (supplied_parameters params) (declared_parameters wfl)))"
    using a b by (intro validate_custom) simp_all
  assume "resolves mods env wn wfl impl"
  then show "execute mods env eid wn params allow tr tri tps
             = Inl (ValueError_custom wn
                      (undeclared (supplied_parameters params) (declared_parameters wfl)))"
    using c by (simp add: execute_resolved)
next
  let ?mv = "merged_value (supplied_parameters params) (declared_parameters wfl)"
  assume a: "distinct (map fst (declared_parameters wfl)) \<and>
   distinct (map fst (supplied_parameters params)) \<and>
   missing_mandatory (supplied_parameters params) (declared_parameters wfl) = []"
  and b: "allow \<or> undeclared (supplied_parameters params) (declared_parameters wfl) = []"
  obtain mp where mp: "merge_and_validate_execution_parameters wfl wn params allow = Inr mp"
    and v: "\<forall>k. map_of mp k = ?mv k"
    using validate_merged [of wfl params allow wn] a b by blast
  have key: "''__cloudify_context'' \<in> fst ` set mp \<longleftrightarrow> ?mv ''__cloudify_context'' \<noteq> None"
    using v map_of_eq_None_iff [of mp "''__cloudify_context''"] by simp
  have passed: "resolves mods env wn wfl impl \<and> ?mv ''__cloudify_context'' = None \<longrightarrow>
          (\<exists>call. execute mods env eid wn params allow tr tri tps = Inr call \<and>
                  workflow_method call = impl \<and> kwargs call = mp)"
    using mp key by (auto simp: execute_resolved)
  have refused: "resolves mods env wn wfl impl \<and> ?mv ''__cloudify_context'' \<noteq> None \<longrightarrow>
          execute mods env eid wn params allow tr tri tps
            = Inl (TypeError_keyword ''__cloudify_context'')"
  proof
    assume h: "resolves mods env wn wfl impl \<and> ?mv ''__cloudify_context'' \<noteq> None"
    then have "''__cloudify_context'' \<in> fst ` set mp"
      using key by blast
    then show "execute mods env eid wn params allow tr tri tps
            = Inl (TypeError_keyword ''__cloudify_context'')"
      using mp h execute_resolved [of mods env wn wfl impl eid params allow tr tri tps]
      by simp
  qed
  show "\<exists>mp. merge_and_validate_execution_parameters wfl wn params allow = Inr mp \<and>
              (\<forall>k. map_of mp k = ?mv k) \<and>
              (resolves mods env wn wfl impl \<and> ?mv ''__cloudify_context'' = None \<longrightarrow>
                 (\<exists>call. execute mods env eid wn params allow tr tri tps = Inr call \<and>
                         workflow_method call = impl \<and> kwargs call = mp)) \<and>
              (resolves mods env wn wfl impl \<and> ?mv ''__cloudify_context'' \<noteq> None \<longrightarrow>
                 execute mods env eid wn params allow tr tri tps
                   = Inl (TypeError_keyword ''__cloudify_context''))"
    using mp v passed refused by blast
qed

theorem custom_parameters_rejected_or_passed_through_witness:
  "execute example_modules example_environment ''e1'' ''deploy''
     (Some [(''x'', PInt 1), (''extra'', PInt 1), (''y'', PStr ''b''), (''more'', PNone)])
     False (-1) 30 1
     = Inl (ValueError_custom ''deploy'' [''extra'', ''more''])
   \<and> (\<exists>call. execute example_modules example_environment ''e1'' ''deploy''
                (Some [(''x'', PInt 1), (''extra'', PInt 1), (''y'', PStr ''b''), (''more'', PNone)])
                True (-1) 30 1 = Inr call \<and>
              workflow_method call = (''flows'', ''deploy'') \<and>
              map_of (kwargs call) ''extra'' = Some (PInt 1) \<and>
              map_of (kwargs call) ''more'' = Some PNone \<and>
              map_of (kwargs call) ''x'' = Some (PInt 1) \<and>
              map_of (kwargs call) ''y'' = Some (PStr ''b'') \<and>
              map_of (kwargs call) ''retries'' = Some (PInt 3) \<and>
              map_of (kwargs call) ''other'' = None)
   \<and> execute example_modules example_environment ''e1'' ''deploy''
       (Some [(''x'', PInt 1), (''y'', PStr ''b''), (''__cloudify_context'', PNone)])
       True (-1) 30 1
     = Inl (TypeError_keyword ''__cloudify_context'')"
proof -
  let ?ps = "Some [(''x'', PInt 1), (''extra'', PInt 1), (''y'', PStr ''b''), (''more'', PNone)]"
  let ?qs = "Some [(''x'', PInt 1), (''y'', PStr ''b''), (''__cloudify_context'', PNone)]"
  have h: "distinct (map fst (declared_parameters example_workflow)) \<and>
           distinct (map fst (supplied_parameters ?ps)) \<and>
           missing_mandatory (supplied_parameters ?ps) (declared_parameters example_workflow) = []"
    by (simp add: parameter_defs)
  have hq: "distinct (map fst (declared_parameters example_workflow)) \<and>
           distinct (map fst (supplied_parameters ?qs)) \<and>
           missing_mandatory (supplied_parameters ?qs) (declared_parameters example_workflow) = []"
    by (simp add: parameter_defs)
  have u: "undeclared (supplied_parameters ?ps) (declared_parameters example_workflow)
             = [''extra'', ''more'']"
    by (simp add: parameter_defs)
  have r: "resolves example_modules example_environment ''deploy'' example_workflow
             (''flows'', ''deploy'')"
    by (simp add: parameter_defs)
  have v: "merged_value (supplied_parameters ?ps) (declared_parameters example_workflow) ''extra''
             = Some (PInt 1)"
    "merged_value (supplied_parameters ?ps) (declared_parameters example_workflow) ''more''
             = Some PNone"
    "merged_value (supplied_parameters ?ps) (declared_parameters example_workflow) ''x''
             = Some (PInt 1)"
    "merged_value (supplied_parameters ?ps) (declared_parameters example_workflow) ''y''
             = Some (PStr ''b'')"
    "merged_value (supplied_parameters ?ps) (declared_parameters example_workflow) ''retries''
             = Some (PInt 3)"
    "merged_value (supplied_parameters ?ps) (declared_parameters example_workflow) ''other''
             = None"
    "merged_value (supplied_parameters ?ps) (declared_parameters example_workflow)
       ''__cloudify_context'' = None"
    by (simp_all add: parameter_defs)
  have vq: "merged_value (supplied_parameters ?qs) (declared_parameters example_workflow)
       ''__cloudify_context'' \<noteq> None"
    by (simp add: parameter_defs)
  have c1: "execute example_modules example_environment ''e1'' ''deploy'' ?ps False (-1) 30 1
     = Inl (ValueError_custom ''deploy'' [''extra'', ''more''])"
    using custom_parameters_rejected_or_passed_through
      [of example_workflow ?ps False "''deploy''" example_modules example_environment
          "(''flows'', ''deploy'')" "''e1''" "-1" 30 1]
      h u r
    by simp
  have c2: "\<exists>call. execute example_modules example_environment ''e1'' ''deploy'' ?ps
                True (-1) 30 1 = Inr call \<and>
              workflow_method call = (''flows'', ''deploy'') \<and>
              map_of (kwargs call) ''extra'' = Some (PInt 1) \<and>
              map_of (kwargs call) ''more'' = Some PNone \<and>
              map_of (kwargs call) ''x'' = Some (PInt 1) \<and>
              map_of (kwargs call) ''y'' = Some (PStr ''b'') \<and>
              map_of (kwargs call) ''retries'' = Some (PInt 3) \<and>
              map_of (kwargs call) ''other'' = None"
    using custom_parameters_rejected_or_passed_through
      [of example_workflow ?ps True "''deploy''" example_modules example_environment
          "(''flows'', ''deploy'')" "''e1''" "-1" 30 1]
      h r v
    by auto
  have c3: "execute example_modules example_environment ''e1'' ''deploy'' ?qs True (-1) 30 1
     = Inl (TypeError_keyword ''__cloudify_context'')"
    using custom_parameters_rejected_or_passed_through
      [of example_workflow ?qs True "''deploy''" example_modules example_environment
          "(''flows'', ''deploy'')" "''e1''" "-1" 30 1]
      hq r vq
    by auto
  show ?thesis
    using c1 c2 c3 by blast
qed

text \<open>
  Claim C7 as it is stated fails for a parameter of the name \<^verbatim>\<open>__cloudify_context\<close>: the
  caller supplies every mandatory parameter and one that the workflow does not declare,
  custom parameters are allowed, and the parameter is not passed to the implementation,
  which is not called; \<^verbatim>\<open>_merge_and_validate_execution_parameters\<close> has merged it.
\<close>

theorem custom_parameter_of_the_context_name_not_passed:
  "execute example_modules example_environment ''e1'' ''deploy''
     (Some [(''x'', PInt 1), (''y'', PStr ''b''), (''__cloudify_context'', PNone)])
     True (-1) 30 1
     = Inl (TypeError_keyword ''__cloudify_context'')
   \<and> undeclared
       (supplied_parameters
          (Some [(''x'', PInt 1), (''y'', PStr ''b''), (''__cloudify_context'', PNone)]))
       (declared_parameters example_workflow) = [''__cloudify_context'']
   \<and> missing_mandatory
       (supplied_parameters
          (Some [(''x'', PInt 1), (''y'', PStr ''b''), (''__cloudify_context'', PNone)]))
       (declared_parameters example_workflow) = []
   \<and> merge_and_validate_execution_parameters example_workflow ''deploy''
       (Some [(''x'', PInt 1), (''y'', PStr ''b''), (''__cloudify_context'', PNone)]) True
     = Inr [(''x'', PInt 1), (''y'', PStr ''b''), (''retries'', PInt 3),
            (''__cloudify_context'', PNone)]"
  by (simp add: parameter_defs Let_def)

text \<open>
  Claim C10.  When the caller both leaves out a mandatory parameter and supplies a
  parameter that the workflow does not declare, with \<open>allow_custom_parameters\<close> false, the
  exception of \<^verbatim>\<open>_merge_and_validate_execution_parameters\<close> is the \<^verbatim>\<open>ValueError\<close> of the
  missing mandatory parameters, with all of their names, and never the one of the
  undeclared parameters; \<open>execute\<close> raises the same once the implementation of the workflow
  is found.
\<close>

theorem missing_parameters_reported_before_custom:
  "missing_mandatory (supplied_parameters params) (declared_parameters wfl) \<noteq> [] \<and>
   undeclared (supplied_parameters params) (declared_parameters wfl) \<noteq> [] \<and>
   \<not> allow \<longrightarrow>
     (\<exists>ns. merge_and_validate_execution_parameters wfl wn params allow
              = Inl (ValueError_missing wn ns) \<and>
           set ns = set (missing_mandatory (supplied_parameters params)
                           (declared_parameters wfl)) \<and>
           (resolves mods env wn wfl impl \<longrightarrow>
              execute mods env eid wn params allow tr tri tps = Inl (ValueError_missing wn ns))) \<and>
     (\<forall>w cs. merge_and_validate_execution_parameters wfl wn params allow
               \<noteq> Inl (ValueError_custom w cs))"
proof
  assume a: "missing_mandatory (supplied_parameters params) (declared_parameters wfl) \<noteq> [] \<and>
   undeclared (supplied_parameters params) (declared_parameters wfl) \<noteq> [] \<and> \<not> allow"
  obtain ns where ns: "merge_and_validate_execution_parameters wfl wn params allow
                         = Inl (ValueError_missing wn ns)"
    and s: "set ns = set (missing_mandatory (supplied_parameters params)
                            (declared_parameters wfl))"
    using validate_missing [of params wfl wn allow] a by blast
  have "resolves mods env wn wfl impl \<longrightarrow>
          execute mods env eid wn params allow tr tri tps = Inl (ValueError_missing wn ns)"
    using ns by (simp add: execute_resolved)
  then show "(\<exists>ns. merge_and_validate_execution_parameters wfl wn params allow
              = Inl (ValueError_missing wn ns) \<and>
           set ns = set (missing_mandatory (supplied_parameters params)
                           (declared_parameters wfl)) \<and>
           (resolves mods env wn wfl impl \<longrightarrow>
              execute mods env eid wn params allow tr tri tps = Inl (ValueError_missing wn ns))) \<and>
     (\<forall>w cs. merge_and_validate_execution_parameters wfl wn params allow
               \<noteq> Inl (ValueError_custom w cs))"
    using ns s by auto
qed

theorem missing_parameters_reported_before_custom_witness:
  "(\<exists>ns. execute example_modules example_environment ''e1'' ''deploy''
            (Some [(''extra'', PInt 1), (''y'', PStr ''b'')]) False (-1) 30 1
            = Inl (ValueError_missing ''deploy'' ns) \<and>
          set ns = {''x''})
   \<and> merge_and_validate_execution_parameters example_workflow ''deploy''
        (Some [(''extra'', PInt 1), (''y'', PStr ''b'')]) False
        \<noteq> Inl (ValueError_custom ''deploy'' [''extra''])"
proof -
  let ?ps = "Some [(''extra'', PInt 1), (''y'', PStr ''b'')]"
  have h: "missing_mandatory (supplied_parameters ?ps) (declared_parameters example_workflow) \<noteq> []"
    "undeclared (supplied_parameters ?ps) (declared_parameters example_workflow) \<noteq> []"
    by (simp_all add: parameter_defs)
  have s: "set (missing_mandatory (supplied_parameters ?ps)
                  (declared_parameters example_workflow)) = {''x''}"
    by (simp add: parameter_defs)
  have r: "resolves example_modules example_environment ''deploy'' example_workflow
             (''flows'', ''deploy'')"
    by (simp add: parameter_defs)
  show ?thesis
    using missing_parameters_reported_before_custom
      [of ?ps example_workflow False "''deploy''" example_modules example_environment
          "(''flows'', ''deploy'')" "''e1''" "-1" 30 1]
      h s r
    by auto
qed

section \<open>Properties of the outputs\<close>

lemma update_in_place:
  "k \<notin> fst ` set pre \<Longrightarrow> AList.update k x (pre @ (k, v) # rest) = pre @ (k, x) # rest"
  by (induction pre) auto

lemma handler_plain:
  "parse v = None \<Longrightarrow> handler parse st acc k v = Inr acc"
  by (simp add: handler_def)

lemma handler_get_attribute:
  assumes "parse v = Some (n, a)" "storage_get_node_instances st = Inr insts"
    "ctx = None \<or> ctx = Some insts"
  shows "handler parse st (ctx, d) k v =
     Inr (Some insts,
          AList.update k
            (PList (map (attribute_of a) (filter (\<lambda>instance. node_id instance = Some n) insts)))
            d)"
  using assms by (auto simp: handler_def)

lemma scan_outputs:
  assumes "storage_get_node_instances st = Inr insts"
    "ctx = None \<or> ctx = Some insts"
    "distinct (map fst (pre @ kvs))"
  shows "\<exists>ctx'. scan_properties (handler parse st) kvs (ctx, pre @ kvs) =
           Inr (ctx',
                pre @ map (\<lambda>(k, v).
                             (k, case parse v of
                                   None \<Rightarrow> v
                                 | Some (n, a) \<Rightarrow>
                                     PList (map (attribute_of a)
                                              (filter (\<lambda>instance. node_id instance = Some n)
                                                 insts))))
                        kvs)"
  using assms(2,3)
proof (induction kvs arbitrary: pre ctx)
  case Nil
  show ?case by simp
next
  case (Cons p kvs)
  obtain k v where p: "p = (k, v)" by (cases p)
  have fresh_key: "k \<notin> fst ` set pre"
    using Cons.prems(2) by (auto simp: p)
  have d: "distinct (map fst ((pre @ [(k, v')]) @ kvs))" for v'
    using Cons.prems(2) by (simp add: p)
  show ?case
  proof (cases "parse v")
    case None
    have "\<exists>ctx'. scan_properties (handler parse st) kvs (ctx, (pre @ [(k, v)]) @ kvs) =
           Inr (ctx',
                (pre @ [(k, v)]) @ map (\<lambda>(k, v).
                             (k, case parse v of
                                   None \<Rightarrow> v
                                 | Some (n, a) \<Rightarrow>
                                     PList (map (attribute_of a)
                                              (filter (\<lambda>instance. node_id instance = Some n)
                                                 insts))))
                        kvs)"
      using Cons.prems(1) d by (rule Cons.IH)
    then show ?thesis
      using None by (simp add: p handler_plain)
  next
    case (Some na)
    obtain n a where na: "na = (n, a)" by (cases na)
    let ?x = "PList (map (attribute_of a) (filter (\<lambda>instance. node_id instance = Some n) insts))"
    have h: "handler parse st (ctx, pre @ (k, v) # kvs) k v
               = Inr (Some insts, (pre @ [(k, ?x)]) @ kvs)"
      using handler_get_attribute [OF _ assms(1) Cons.prems(1), of parse v n a "pre @ (k, v) # kvs" k]
        Some na update_in_place [OF fresh_key, of ?x v kvs]
      by simp
    have "\<exists>ctx'. scan_properties (handler parse st) kvs (Some insts, (pre @ [(k, ?x)]) @ kvs) =
           Inr (ctx',
                (pre @ [(k, ?x)]) @ map (\<lambda>(k, v).
                             (k, case parse v of
                                   None \<Rightarrow> v
                                 | Some (n, a) \<Rightarrow>
                                     PList (map (attribute_of a)
                                              (filter (\<lambda>instance. node_id instance = Some n)
                                                 insts))))
                        kvs)"
      using d by (intro Cons.IH) simp_all
    then show ?thesis
      using Some na h by (simp add: p)
  qed
qed

lemma outputs_resolved:
  assumes "storage_get_node_instances (env_storage env) = Inr insts"
    "distinct (map fst (outputs (env_plan env)))"
  shows "Environment_outputs parse env =
     Inr (map (\<lambda>(k, v).
                 (k, case parse v of
                       None \<Rightarrow> v
                     | Some (n, a) \<Rightarrow>
                         PList (map (attribute_of a)
                                  (filter (\<lambda>instance. node_id instance = Some n) insts))))
            (outputs (env_plan env)))"
  using scan_outputs [OF assms(1), of None "[]" "outputs (env_plan env)" parse] assms(2)
  by (auto simp: Environment_outputs_def Let_def)

lemma map_of_map_values:
  "map_of (map (\<lambda>(k, v). (k, f v)) kvs) k = map_option f (map_of kvs k)"
  by (induction kvs) auto

lemma storage_lists_stored:
  "well_formed st \<Longrightarrow> storage_get_node_instances st = Inr (stored_instances st)"
  by (cases st)
    (simp_all add: well_formed_def storage_get_node_instances_def stored_instances_def
      InMemoryStorage_get_node_instances_def file_get_all)

lemma Environment_init_well_formed:
  assumes "Environment_init mods pl nm root cls = Inr env"
    "\<forall>dsk clear. cls = Some (FileStorage_cls dsk clear) \<longrightarrow> fresh dsk clear"
  shows "well_formed (env_storage env)"
proof (cases "case cls of None \<Rightarrow> InMemoryStorage_cls | Some c \<Rightarrow> c")
  case (FileStorage_cls dsk clear)
  then have "fresh dsk clear"
    using assms(2) by (cases cls) simp_all
  then show ?thesis
    using assms(1) FileStorage_cls
    by (auto simp: Environment_init_def well_formed_def FileStorage_init_inv
        split: sum.splits prod.splits)
qed (use assms(1) in \<open>auto simp: Environment_init_def well_formed_def
       split: sum.splits prod.splits\<close>)

lemmas outputs_defs =
  example_outputs_environment_def example_outputs_file_environment_def
  example_outputs_plan_def example_instances_def
  example_instance_def example_node_def prepare_instance_def
  InMemoryStorage_init_def Storage_init_instances_def Storage_init_nodes_def dict_of_def
  stored_instances_def attribute_of_def

text \<open>
  Claim C8.  The output names are distinct and the store is well-formed, as the store of
  a constructed environment is.  Then \<^verbatim>\<open>outputs()\<close> returns the output definitions with
  the same names in the same order; an output whose value is a get-attribute expression
  for a node and an attribute has become the list, with one entry for each node instance
  of the store whose node id is that node, of the value that the runtime properties of
  the instance have for the attribute, and \<^verbatim>\<open>None\<close> when they have none or the instance
  has no runtime properties; every other value is as it was.
\<close>

theorem outputs_resolve_get_attribute:
  "distinct (map fst (outputs (env_plan env))) \<and> well_formed (env_storage env) \<longrightarrow>
     (\<exists>res. Environment_outputs parse env = Inr res \<and>
            map fst res = map fst (outputs (env_plan env)) \<and>
            (\<forall>(k, v) \<in> set (outputs (env_plan env)).
               (\<forall>n a. parse v = Some (n, a) \<longrightarrow>
                  map_of res k =
                    Some (PList (map (attribute_of a)
                                   (filter (\<lambda>instance. node_id instance = Some n)
                                      (stored_instances (env_storage env)))))) \<and>
               (parse v = None \<longrightarrow> map_of res k = Some v)) \<and>
            (\<forall>a instance.
               attribute_of a instance =
                 (case runtime_properties instance of
                    None \<Rightarrow> PNone
                  | Some rp \<Rightarrow> (case map_of rp a of None \<Rightarrow> PNone | Some x \<Rightarrow> x))))"
proof
  let ?outs = "outputs (env_plan env)"
  let ?insts = "stored_instances (env_storage env)"
  let ?f = "\<lambda>v. case parse v of
                   None \<Rightarrow> v
                 | Some (n, a) \<Rightarrow>
                     PList (map (attribute_of a)
                              (filter (\<lambda>instance. node_id instance = Some n) ?insts))"
  let ?res = "map (\<lambda>(k, v). (k, ?f v)) ?outs"
  assume a: "distinct (map fst ?outs) \<and> well_formed (env_storage env)"
  have g: "storage_get_node_instances (env_storage env) = Inr ?insts"
    using a by (simp add: storage_lists_stored)
  have r: "Environment_outputs parse env = Inr ?res"
    using a g outputs_resolved [of env ?insts parse] by simp
  have keys: "map fst ?res = map fst ?outs"
    by (simp add: case_prod_unfold comp_def)
  have vals: "map_of ?res k = Some (?f v)" if "(k, v) \<in> set ?outs" for k v
  proof -
    have "map_of ?outs k = Some v"
      using a that by simp
    then show ?thesis
      by (simp add: map_of_map_values)
  qed
  have each: "\<forall>(k, v) \<in> set ?outs.
               (\<forall>n a. parse v = Some (n, a) \<longrightarrow>
                  map_of ?res k =
                    Some (PList (map (attribute_of a)
                                   (filter (\<lambda>instance. node_id instance = Some n) ?insts)))) \<and>
               (parse v = None \<longrightarrow> map_of ?res k = Some v)"
    using vals by (auto simp del: map_of_map)
  have attr: "\<forall>a instance.
               attribute_of a instance =
                 (case runtime_properties instance of
                    None \<Rightarrow> PNone
                  | Some rp \<Rightarrow> (case map_of rp a of None \<Rightarrow> PNone | Some x \<Rightarrow> x))"
    by (simp add: attribute_of_def split: option.splits)
  show "\<exists>res. Environment_outputs parse env = Inr res \<and>
            map fst res = map fst ?outs \<and>
            (\<forall>(k, v) \<in> set ?outs.
               (\<forall>n a. parse v = Some (n, a) \<longrightarrow>
                  map_of res k =
                    Some (PList (map (attribute_of a)
                                   (filter (\<lambda>instance. node_id instance = Some n) ?insts)))) \<and>
               (parse v = None \<longrightarrow> map_of res k = Some v)) \<and>
            (\<forall>a instance.
               attribute_of a instance =
                 (case runtime_properties instance of
                    None \<Rightarrow> PNone
                  | Some rp \<Rightarrow> (case map_of rp a of None \<Rightarrow> PNone | Some x \<Rightarrow> x)))"
    using r keys each attr by blast
qed

theorem outputs_resolve_get_attribute_witness:
  "(\<exists>res. Environment_outputs example_parse example_outputs_environment = Inr res \<and>
          map fst res = [''endpoint'', ''port''] \<and>
          map_of res ''endpoint'' = Some (PList [PStr ''10.0.0.1'', PNone, PNone]) \<and>
          map_of res ''port'' = Some (PInt 80))
   \<and> (\<exists>res. Environment_outputs example_parse example_outputs_file_environment = Inr res \<and>
          map fst res = [''endpoint'', ''port''] \<and>
          map_of res ''endpoint'' = Some (PList [PStr ''10.0.0.1'', PNone, PNone]) \<and>
          map_of res ''port'' = Some (PInt 80))"
proof -
  have shown: "\<exists>res. Environment_outputs example_parse env = Inr res \<and>
          map fst res = [''endpoint'', ''port''] \<and>
          map_of res ''endpoint'' = Some (PList [PStr ''10.0.0.1'', PNone, PNone]) \<and>
          map_of res ''port'' = Some (PInt 80)"
    if w: "well_formed (env_storage env)"
      and o: "outputs (env_plan env)
             = [(''endpoint'', PDict [(''get_attribute'', PList [PStr ''web'', PStr ''ip''])]),
                (''port'', PInt 80)]"
      and l: "map (attribute_of ''ip'')
                (filter (\<lambda>instance. node_id instance = Some ''web'')
                   (stored_instances (env_storage env)))
             = [PStr ''10.0.0.1'', PNone, PNone]"
    for env
  proof -
    have h: "distinct (map fst (outputs (env_plan env)))"
      unfolding o by simp
    obtain res where r: "Environment_outputs example_parse env = Inr res"
      and k: "map fst res = map fst (outputs (env_plan env))"
      and v: "\<forall>(k, v) \<in> set (outputs (env_plan env)).
               (\<forall>n a. example_parse v = Some (n, a) \<longrightarrow>
                  map_of res k =
                    Some (PList (map (attribute_of a)
                                   (filter (\<lambda>instance. node_id instance = Some n)
                                      (stored_instances (env_storage env)))))) \<and>
               (example_parse v = None \<longrightarrow> map_of res k = Some v)"
      using outputs_resolve_get_attribute [of env example_parse] h w
      by blast
    have "map_of res ''endpoint'' = Some (PList [PStr ''10.0.0.1'', PNone, PNone])"
      using v l unfolding o by simp
    moreover have "map_of res ''port'' = Some (PInt 80)"
      using v unfolding o by simp
    moreover have "map fst res = [''endpoint'', ''port'']"
      using k unfolding o by simp
    ultimately show ?thesis
      using r by (intro exI [of _ res] conjI)
  qed
  have fr: "fresh NoStorageDir False"
    by simp
  have m: "\<exists>res. Environment_outputs example_parse example_outputs_environment = Inr res \<and>
          map fst res = [''endpoint'', ''port''] \<and>
          map_of res ''endpoint'' = Some (PList [PStr ''10.0.0.1'', PNone, PNone]) \<and>
          map_of res ''port'' = Some (PInt 80)"
    by (rule shown) (simp_all add: outputs_defs well_formed_def)
  have f: "\<exists>res. Environment_outputs example_parse example_outputs_file_environment = Inr res \<and>
          map fst res = [''endpoint'', ''port''] \<and>
          map_of res ''endpoint'' = Some (PList [PStr ''10.0.0.1'', PNone, PNone]) \<and>
          map_of res ''port'' = Some (PInt 80)"
  proof (rule shown)
    show "well_formed (env_storage example_outputs_file_environment)"
      by (simp add: example_outputs_file_environment_def well_formed_def
          FileStorage_init_inv [OF fr])
  qed (simp_all add: outputs_defs FileStorage_init_fresh [OF fr])
  show ?thesis
    using m f by (rule conjI)
qed

section \<open>Properties of the validation at construction\<close>


























end
